theory Spec2Isabelle
  imports Complex_Main "HOL-Library.AList"
begin

section \<open>JavaScript values\<close>

text \<open>
  The application is written in JavaScript. Integers (\<open>xp\<close>, \<open>level\<close>, ids, counters)
  are modelled as \<^typ>\<open>int\<close>; averages and percentages as exact reals, with \<open>NaN\<close> as
  \<open>None\<close> (the rounding errors of IEEE doubles are not part of the model). A string is a
  list of code units; every string the model holds lies in Latin-1, so one \<^typ>\<open>char\<close>
  stands for one code unit and \<^const>\<open>length\<close> is \<open>String.length\<close>.
\<close>

type_synonym num = "real option"

datatype jsval = JUndefined | JBool bool | JStr string

text \<open>A plain object with string keys, in property order.\<close>

type_synonym obj = "(string \<times> jsval) list"

definition js_prop :: "obj \<Rightarrow> string \<Rightarrow> jsval" where
  "js_prop ob k = (case map_of ob k of Some v \<Rightarrow> v | None \<Rightarrow> JUndefined)"

text \<open>\<open>{...base, ...ext}\<close>: later properties replace earlier ones with the same key.\<close>

definition js_spread :: "obj \<Rightarrow> obj \<Rightarrow> obj" where
  "js_spread base ext = foldl (\<lambda>ob (k, v). AList.update k v ob) base ext"

text \<open>
  Reading \<open>table[key]\<close> on an object literal: an own property, else a member inherited
  from \<open>Object.prototype\<close> (a function or an object, hence truthy and not a number),
  else \<open>undefined\<close>.
\<close>

datatype 'a member = Own 'a | Inherited | Missing

definition objectPrototypeKeys :: "string list" where
  "objectPrototypeKeys =
     [''constructor'', ''hasOwnProperty'', ''isPrototypeOf'', ''propertyIsEnumerable'',
      ''toLocaleString'', ''toString'', ''valueOf'', ''__proto__'',
      ''__defineGetter__'', ''__defineSetter__'', ''__lookupGetter__'', ''__lookupSetter__'']"

definition js_get :: "(string \<times> 'a) list \<Rightarrow> string \<Rightarrow> 'a member" where
  "js_get table k =
     (case map_of table k of
        Some v \<Rightarrow> Own v
      | None \<Rightarrow> if k \<in> set objectPrototypeKeys then Inherited else Missing)"

section \<open>Data model (config.js)\<close>

record challenge =
  c_id :: string
  c_title :: string
  c_description :: string
  c_xp :: int

record badge =
  b_id :: string
  b_title :: string
  b_icon :: string
  b_description :: string

record userProfile =
  xp :: int
  level :: int
  checkInStreak :: int
  lastCheckInDate :: "string option"
  badges :: "string list"
  completedChallenges :: "string list"

record guidanceTasks =
  gt_journal :: bool
  gt_assessment :: bool
  gt_feedback :: bool

text \<open>Optional fields (\<open>createdAt\<close>, \<open>completedAt\<close>, ...) are \<open>None\<close> when absent or \<open>null\<close>.\<close>

record goal =
  g_id :: int
  g_title :: string
  g_completed :: bool
  g_createdAt :: "string option"
  g_completedAt :: "string option"

record journalEntry =
  j_id :: int
  j_date :: string
  j_content :: string
  j_createdAt :: "string option"
  j_mood :: jsval
  j_updatedAt :: "string option"

record moodEntry =
  m_date :: jsval
  m_mood :: string

record message =
  msg_id :: int
  msg_from :: string
  msg_subject :: string
  msg_content :: string
  msg_date :: string
  msg_read :: bool

record appointment =
  a_id :: int
  a_date :: string
  a_professional :: string
  a_status :: string
  a_reason :: "string option"
  a_createdAt :: "string option"

record slot =
  s_date :: string
  s_time :: string
  s_available :: bool

record document =
  userName :: "string option"
  currentDate :: string
  guidanceTasks :: guidanceTasks
  userProfile :: userProfile
  goals :: "goal list"
  journalEntries :: "journalEntry list"
  feelings :: "obj list"
  selfAssessments :: "obj list"
  messages :: "message list"
  appointments :: "appointment list"
  availableSlots :: "slot list"
  moodHistory :: "moodEntry list"

definition CHALLENGES :: "challenge list" where
  "CHALLENGES = [
     \<lparr>c_id = ''challenge_1'', c_title = (''Respira'' @ [CHR 0xE7, CHR 0xE3] @ ''o Profunda''), c_description = (''Fa'' @ [CHR 0xE7] @ ''a 1 minuto de respira'' @ [CHR 0xE7, CHR 0xE3] @ ''o consciente.''), c_xp = 15\<rparr>,
     \<lparr>c_id = ''challenge_2'', c_title = (''Momento de Gratid'' @ [CHR 0xE3] @ ''o''), c_description = (''Anote 3 coisas pelas quais voc'' @ [CHR 0xEA] @ '' '' @ [CHR 0xE9] @ '' grato hoje.''), c_xp = 20\<rparr>,
     \<lparr>c_id = ''challenge_3'', c_title = ''Pausa Ativa'', c_description = ''Levante-se e alongue-se por 5 minutos.'', c_xp = 15\<rparr>,
     \<lparr>c_id = ''challenge_4'', c_title = (''Hidrata'' @ [CHR 0xE7, CHR 0xE3] @ ''o''), c_description = (''Beba um copo de '' @ [CHR 0xE1] @ ''gua agora.''), c_xp = 10\<rparr>,
     \<lparr>c_id = ''challenge_5'', c_title = (''Organiza'' @ [CHR 0xE7, CHR 0xE3] @ ''o''), c_description = ''Organize sua mesa ou ambiente de estudo.'', c_xp = 25\<rparr>]"

definition BADGES :: "(string \<times> badge) list" where
  "BADGES = [
     (''JOURNAL_START'', \<lparr>b_id = ''JOURNAL_START'', b_title = (''Di'' @ [CHR 0xE1] @ ''rio Iniciado''), b_icon = ''book-plus'', b_description = (''Escreveu sua primeira entrada no di'' @ [CHR 0xE1] @ ''rio.'')\<rparr>),
     (''STREAK_3'', \<lparr>b_id = ''STREAK_3'', b_title = (''Trio Imbat'' @ [CHR 0xED] @ ''vel''), b_icon = ''flame'', b_description = ''Fez check-in por 3 dias seguidos.''\<rparr>),
     (''STREAK_7'', \<lparr>b_id = ''STREAK_7'', b_title = ''Semana Consistente'', b_icon = ''calendar-check'', b_description = ''Fez check-in por 7 dias seguidos.''\<rparr>),
     (''LEVEL_5'', \<lparr>b_id = ''LEVEL_5'', b_title = (''N'' @ [CHR 0xED] @ ''vel 5''), b_icon = ''star'', b_description = (''Alcan'' @ [CHR 0xE7] @ ''ou o n'' @ [CHR 0xED] @ ''vel 5 de bem-estar.'')\<rparr>),
     (''GOAL_MASTER'', \<lparr>b_id = ''GOAL_MASTER'', b_title = ''Mestre das Metas'', b_icon = ''target'', b_description = ''Completou 5 metas pessoais.''\<rparr>),
     (''CHALLENGE_HERO'', \<lparr>b_id = ''CHALLENGE_HERO'', b_title = (''Her'' @ [CHR 0xF3] @ ''i dos Desafios''), b_icon = ''award'', b_description = (''Completou todos os desafios dispon'' @ [CHR 0xED] @ ''veis.'')\<rparr>)]"

definition INITIAL_goals :: "goal list" where
  "INITIAL_goals = [
     \<lparr>g_id = 1, g_title = (''Praticar 30 minutos de medita'' @ [CHR 0xE7, CHR 0xE3] @ ''o''), g_completed = True, g_createdAt = None, g_completedAt = None\<rparr>,
     \<lparr>g_id = 2, g_title = ''Organizar a semana de estudos'', g_completed = False, g_createdAt = None, g_completedAt = None\<rparr>,
     \<lparr>g_id = 3, g_title = ''Fazer uma caminhada ao ar livre'', g_completed = False, g_createdAt = None, g_completedAt = None\<rparr>,
     \<lparr>g_id = 4, g_title = (''Escrever no di'' @ [CHR 0xE1] @ ''rio por 5 dias seguidos''), g_completed = True, g_createdAt = None, g_completedAt = None\<rparr>,
     \<lparr>g_id = 5, g_title = (''Ler um cap'' @ [CHR 0xED] @ ''tulo de livro sobre bem-estar''), g_completed = False, g_createdAt = None, g_completedAt = None\<rparr>]"

definition INITIAL_journalEntries :: "journalEntry list" where
  "INITIAL_journalEntries = [
     \<lparr>j_id = 1, j_date = ''08/09/2025'', j_content = ''Primeiro dia usando o app. Parece promissor!'', j_createdAt = None, j_mood = JUndefined, j_updatedAt = None\<rparr>,
     \<lparr>j_id = 2, j_date = ''07/09/2025'', j_content = (''Hoje foi um dia desafiador. Tive que lidar com v'' @ [CHR 0xE1] @ ''rias tarefas ao mesmo tempo e me senti um pouco sobrecarregado. Mas consegui terminar a maioria delas!''), j_createdAt = None, j_mood = JUndefined, j_updatedAt = None\<rparr>,
     \<lparr>j_id = 3, j_date = ''06/09/2025'', j_content = (''Comecei a planejar meu projeto de biologia. A parte inicial '' @ [CHR 0xE9] @ '' sempre a mais dif'' @ [CHR 0xED] @ ''cil, mas me sinto motivado para seguir em frente.''), j_createdAt = None, j_mood = JUndefined, j_updatedAt = None\<rparr>,
     \<lparr>j_id = 4, j_date = ''05/09/2025'', j_content = (''Tive uma conversa muito boa com um amigo hoje. Foi '' @ [CHR 0xF3] @ ''timo desabafar e ouvir a perspectiva dele sobre algumas coisas.''), j_createdAt = None, j_mood = JUndefined, j_updatedAt = None\<rparr>,
     \<lparr>j_id = 5, j_date = ''04/09/2025'', j_content = (''Me senti um pouco ansioso hoje. Acho que '' @ [CHR 0xE9] @ '' por causa das provas que est'' @ [CHR 0xE3] @ ''o chegando. Preciso encontrar maneiras de relaxar mais.''), j_createdAt = None, j_mood = JUndefined, j_updatedAt = None\<rparr>]"

definition INITIAL_feelings :: "obj list" where
  "INITIAL_feelings = [
     [(''emotion'', JStr ''bom''), (''date'', JStr ''2025-09-01''), (''timestamp'', JStr ''2025-09-01T10:00:00Z'')],
     [(''emotion'', JStr ''neutro''), (''date'', JStr ''2025-09-02''), (''timestamp'', JStr ''2025-09-02T10:00:00Z'')],
     [(''emotion'', JStr ''ruim''), (''date'', JStr ''2025-09-03''), (''timestamp'', JStr ''2025-09-03T10:00:00Z'')],
     [(''emotion'', JStr ''neutro''), (''date'', JStr ''2025-09-04''), (''timestamp'', JStr ''2025-09-04T10:00:00Z'')],
     [(''emotion'', JStr ''otimo''), (''date'', JStr ''2025-09-05''), (''timestamp'', JStr ''2025-09-05T10:00:00Z'')],
     [(''emotion'', JStr ''bom''), (''date'', JStr ''2025-09-06''), (''timestamp'', JStr ''2025-09-06T10:00:00Z'')],
     [(''emotion'', JStr ''neutro''), (''date'', JStr ''2025-09-07''), (''timestamp'', JStr ''2025-09-07T10:00:00Z'')],
     [(''emotion'', JStr ''ruim''), (''date'', JStr ''2025-09-08''), (''timestamp'', JStr ''2025-09-08T10:00:00Z'')]]"

definition INITIAL_messages :: "message list" where
  "INITIAL_messages = [
     \<lparr>msg_id = 1, msg_from = (''Psic'' @ [CHR 0xF3] @ ''loga Ana''), msg_subject = (''Confirma'' @ [CHR 0xE7, CHR 0xE3] @ ''o de Agendamento''), msg_content = (''Ol'' @ [CHR 0xE1] @ ''! Seu atendimento est'' @ [CHR 0xE1] @ '' confirmado para 15/09/2025 '' @ [CHR 0xE0] @ ''s 14:00. At'' @ [CHR 0xE9] @ '' l'' @ [CHR 0xE1] @ ''!''), msg_date = ''2025-09-08'', msg_read = False\<rparr>,
     \<lparr>msg_id = 2, msg_from = (''Psic'' @ [CHR 0xF3] @ ''loga Solange''), msg_subject = ''Material de Apoio'', msg_content = (''Aqui est'' @ [CHR 0xE1] @ '' o link para o artigo sobre gerenciamento de estresse que comentamos: <a href='' @ [CHR 0x27] @ ''#'' @ [CHR 0x27] @ '' class='' @ [CHR 0x27] @ ''text-blue-600 underline'' @ [CHR 0x27] @ ''>Clique aqui</a>.''), msg_date = ''2025-09-05'', msg_read = True\<rparr>,
     \<lparr>msg_id = 3, msg_from = (''Psic'' @ [CHR 0xF3] @ ''logo Bruno''), msg_subject = ''Dicas para Melhorar o Sono'', msg_content = (''Ol'' @ [CHR 0xE1] @ ''! Seguem algumas dicas para melhorar a qualidade do seu sono: manter uma rotina, evitar telas antes de dormir e criar um ambiente tranquilo.''), msg_date = ''2025-08-28'', msg_read = True\<rparr>]"

definition INITIAL_appointments :: "appointment list" where
  "INITIAL_appointments = [
     \<lparr>a_id = 1, a_date = ''2025-09-15 14:00'', a_professional = (''Psic'' @ [CHR 0xF3] @ ''loga Ana''), a_status = ''confirmed'', a_reason = None, a_createdAt = None\<rparr>,
     \<lparr>a_id = 2, a_date = ''2025-09-16 16:00'', a_professional = (''Psic'' @ [CHR 0xF3] @ ''loga Solange''), a_status = ''confirmed'', a_reason = None, a_createdAt = None\<rparr>]"

definition INITIAL_availableSlots :: "slot list" where
  "INITIAL_availableSlots = [
     \<lparr>s_date = ''2025-10-03'', s_time = ''09:00'', s_available = True\<rparr>,
     \<lparr>s_date = ''2025-10-03'', s_time = ''10:00'', s_available = False\<rparr>,
     \<lparr>s_date = ''2025-10-03'', s_time = ''11:00'', s_available = True\<rparr>,
     \<lparr>s_date = ''2025-10-03'', s_time = ''14:00'', s_available = True\<rparr>,
     \<lparr>s_date = ''2025-10-03'', s_time = ''15:00'', s_available = True\<rparr>,
     \<lparr>s_date = ''2025-10-03'', s_time = ''16:00'', s_available = False\<rparr>,
     \<lparr>s_date = ''2025-10-04'', s_time = ''22:00'', s_available = True\<rparr>]"

definition INITIAL_moodHistory :: "moodEntry list" where
  "INITIAL_moodHistory = [
     \<lparr>m_date = JStr ''2025-09-01'', m_mood = ''bom''\<rparr>,
     \<lparr>m_date = JStr ''2025-09-02'', m_mood = ''neutro''\<rparr>,
     \<lparr>m_date = JStr ''2025-09-03'', m_mood = ''ruim''\<rparr>,
     \<lparr>m_date = JStr ''2025-09-04'', m_mood = ''neutro''\<rparr>,
     \<lparr>m_date = JStr ''2025-09-05'', m_mood = ''otimo''\<rparr>,
     \<lparr>m_date = JStr ''2025-09-06'', m_mood = ''bom''\<rparr>,
     \<lparr>m_date = JStr ''2025-09-07'', m_mood = ''neutro''\<rparr>,
     \<lparr>m_date = JStr ''2025-09-08'', m_mood = ''ruim''\<rparr>]"

section \<open>Validation (validators.js)\<close>

text \<open>Decimal digits of a natural number, as template strings and \<open>toFixed\<close> print them.\<close>

definition digitChar :: "nat \<Rightarrow> char" where
  "digitChar d = ''0123456789'' ! d"

fun showNat :: "nat \<Rightarrow> string" where
  "showNat n = (if n < 10 then [digitChar n] else showNat (n div 10) @ [digitChar (n mod 10)])"

declare showNat.simps [simp del]

text \<open>
  \<open>String.prototype.trim\<close> removes white space and line terminators at both ends; within
  Latin-1 these are TAB, LF, VT, FF, CR, SPACE and NBSP.
\<close>

definition isWhitespace :: "char \<Rightarrow> bool" where
  "isWhitespace c =
     (c \<in> set [CHR 0x09, CHR 0x0A, CHR 0x0B, CHR 0x0C, CHR 0x0D, CHR 0x20, CHR 0xA0])"

definition trim :: "string \<Rightarrow> string" where
  "trim s = rev (dropWhile isWhitespace (rev (dropWhile isWhitespace s)))"

text \<open>
  The rules the store uses: \<open>'required'\<close>, \<open>{type: 'minLength', value}\<close> and
  \<open>{type: 'maxLength', value}\<close>. A rule returns its message, or \<open>null\<close>.
\<close>

datatype rule = Required | MinLength nat | MaxLength nat

fun VALIDATION_RULES :: "rule \<Rightarrow> string \<Rightarrow> string \<Rightarrow> string option" where
  "VALIDATION_RULES Required v fieldName =
     (if v = [] \<or> trim v = [] then Some (fieldName @ ('' '' @ [CHR 0xE9] @ '' obrigat'' @ [CHR 0xF3] @ ''rio.'')) else None)"
| "VALIDATION_RULES (MinLength minLength) v fieldName =
     (if v \<noteq> [] \<and> length v < minLength
      then Some (fieldName @ '' deve ter pelo menos '' @ showNat minLength @ '' caracteres.'')
      else None)"
| "VALIDATION_RULES (MaxLength maxLength) v fieldName =
     (if v \<noteq> [] \<and> length v > maxLength
      then Some (fieldName @ ('' deve ter no m'' @ [CHR 0xE1] @ ''ximo '') @ showNat maxLength @ '' caracteres.'')
      else None)"

definition validateField :: "string \<Rightarrow> rule list \<Rightarrow> string \<Rightarrow> string list" where
  "validateField v rules fieldName = List.map_filter (\<lambda>r. VALIDATION_RULES r v fieldName) rules"

text \<open>
  What the browser and the regular-expression engine compute is taken from the
  environment, together with the clock:
  \<^item> \<open>escapeHTML\<close>: \<open>div.textContent = str; div.innerHTML\<close>;
  \<^item> \<open>stripScripts\<close>: \<open>str.replace(/<script...<\/script>/gi, '')\<close>;
  \<^item> \<open>today\<close>: \<open>new Date().toISOString().split("T")[0]\<close>, and \<open>yesterdayStr\<close> the same
    after \<open>setDate(getDate() - 1)\<close>;
  \<^item> \<open>nowMs\<close>, \<open>nowISO\<close>, \<open>localeDate\<close>: \<open>Date.now()\<close>, \<open>toISOString()\<close> and
    \<open>toLocaleDateString('pt-BR')\<close> of the current instant;
  \<^item> \<open>isPast date time\<close>: \<open>new Date(`${date}T${time}`) < new Date()\<close>;
  \<^item> \<open>addDays date n\<close>: the ISO date of \<open>date\<close> moved by \<open>n\<close> days;
  \<^item> \<open>loadDate\<close>: the date held by \<open>INITIAL_STATE.currentDate\<close>.
  One method call reads the clock once.
\<close>

record env =
  today :: string
  yesterdayStr :: string
  nowMs :: int
  nowISO :: string
  localeDate :: string
  loadDate :: string
  escapeHTML :: "string \<Rightarrow> string"
  stripScripts :: "string \<Rightarrow> string"
  isPast :: "string \<Rightarrow> string \<Rightarrow> bool"
  addDays :: "string \<Rightarrow> int \<Rightarrow> string"

text \<open>\<open>Validator.sanitize(str)\<close> with the default sanitizer \<open>html\<close>, and \<open>SANITIZERS.text\<close>.\<close>

definition sanitize :: "env \<Rightarrow> string \<Rightarrow> string" where
  "sanitize e str = (if str = [] then [] else escapeHTML e str)"

definition sanitizeText :: "env \<Rightarrow> string \<Rightarrow> string" where
  "sanitizeText e str = (if str = [] then [] else take 10000 (stripScripts e (trim str)))"

text \<open>
  A validation result \<open>{isValid, errors, sanitized}\<close>: either invalid with its errors, or
  valid with the sanitized value.
\<close>

datatype 'a validation = Invalid "string list" | Valid 'a

definition validateJournalEntry :: "env \<Rightarrow> string \<Rightarrow> string validation" where
  "validateJournalEntry e content =
     (let errors = validateField content [Required, MinLength 3, MaxLength 10000]
                     (''Conte'' @ [CHR 0xFA] @ ''do do di'' @ [CHR 0xE1] @ ''rio'')
      in if errors \<noteq> [] then Invalid errors else Valid (sanitizeText e content))"

definition validateGoal :: "env \<Rightarrow> string \<Rightarrow> string validation" where
  "validateGoal e title =
     (let errors = validateField title [Required, MinLength 3, MaxLength 200] ''Meta''
      in if errors \<noteq> [] then Invalid errors else Valid (sanitizeText e title))"

text \<open>Form data of an appointment; an absent field is the empty string (both are falsy).\<close>

record appointmentData =
  ad_date :: string
  ad_time :: string
  ad_reason :: string

definition validateAppointment :: "env \<Rightarrow> appointmentData \<Rightarrow> appointmentData validation" where
  "validateAppointment e d =
     (let dateErrors = validateField (ad_date d) [Required] ''Data'';
          timeErrors = validateField (ad_time d) [Required] (''Hor'' @ [CHR 0xE1] @ ''rio'');
          dateErrors' =
            (if ad_date d \<noteq> []
                \<and> isPast e (ad_date d) (if ad_time d \<noteq> [] then ad_time d else ''00:00'')
             then dateErrors @ [(''A data do agendamento n'' @ [CHR 0xE3] @ ''o pode ser no passado.'')]
             else dateErrors);
          allErrors = dateErrors' @ timeErrors
      in if allErrors \<noteq> [] then Invalid allErrors
         else Valid (d\<lparr>ad_reason := sanitizeText e (ad_reason d)\<rparr>))"

text \<open>
  \<open>INITIAL_STATE.currentDate\<close> is the UTC date at which the module was loaded; it is the
  parameter \<open>startDate\<close>.
\<close>

definition INITIAL_STATE :: "string \<Rightarrow> document" where
  "INITIAL_STATE startDate =
     \<lparr>userName = None,
      currentDate = startDate,
      guidanceTasks = \<lparr>gt_journal = False, gt_assessment = False, gt_feedback = False\<rparr>,
      userProfile =
        \<lparr>xp = 120, level = 2, checkInStreak = 3, lastCheckInDate = None,
         badges = [''JOURNAL_START'', ''STREAK_3''],
         completedChallenges = [''challenge_1'', ''challenge_2'']\<rparr>,
      goals = INITIAL_goals,
      journalEntries = INITIAL_journalEntries,
      feelings = INITIAL_feelings,
      selfAssessments = [],
      messages = INITIAL_messages,
      appointments = INITIAL_appointments,
      availableSlots = INITIAL_availableSlots,
      moodHistory = INITIAL_moodHistory\<rparr>"

section \<open>The state manager (state.js)\<close>

subsection \<open>Effects and environment\<close>

text \<open>
  The store is the document \<open>this.data\<close> together with a trace of what a method did
  besides mutating the document: observer notifications (event name and payload), toasts
  of the notification layer (by kind; the text shown is presentation) and requests to
  persist (\<open>save()\<close> is debounced, \<open>save(true)\<close> immediate).
\<close>

datatype toastKind = ToastSuccess | ToastError

datatype payload =
    PStr string
  | PInt int
  | PBadge "badge member"
  | PXp int string int int
  | PGoal goal
  | PEntry journalEntry
  | PFeeling obj int
  | PChallenge challenge
  | PAppointment appointment

datatype effect = Emit string payload | Toast toastKind | Save bool

record store =
  data :: document
  effects :: "effect list"

definition emit :: "effect list \<Rightarrow> store \<Rightarrow> store" where
  "emit es s = s\<lparr>effects := effects s @ es\<rparr>"

abbreviation profile :: "store \<Rightarrow> userProfile" where
  "profile s \<equiv> userProfile (data s)"

definition setProfile :: "userProfile \<Rightarrow> store \<Rightarrow> store" where
  "setProfile p s = s\<lparr>data := (data s)\<lparr>userProfile := p\<rparr>\<rparr>"

subsection \<open>Levels and badges\<close>

text \<open>\<open>Math.floor(100 * Math.pow(1.2, level - 1))\<close>, in exact arithmetic.\<close>

definition xpForNextLevel :: "int \<Rightarrow> int" where
  "xpForNextLevel lv = \<lfloor>100 * (12 / 10 :: real) powi (lv - 1)\<rfloor>"

definition awardBadge :: "string \<Rightarrow> store \<Rightarrow> store" where
  "awardBadge badgeId s =
     (if badgeId \<in> set (badges (profile s)) then s
      else
        let s1 = setProfile ((profile s)\<lparr>badges := badges (profile s) @ [badgeId]\<rparr>) s
        in case js_get BADGES badgeId of
             Missing \<Rightarrow> emit [Save False] s1
           | b \<Rightarrow> emit [Toast ToastSuccess, Emit ''badge:awarded'' (PBadge b), Save False] s1)"

text \<open>
  The body of the \<open>if\<close> in \<open>checkForLevelUp\<close> up to the recursive call: one level gained,
  its cost deducted, the event, and the badge of level 5.
\<close>

definition levelUpOnce :: "store \<Rightarrow> store" where
  "levelUpOnce s =
     (let requiredXp = xpForNextLevel (level (profile s));
          s1 = setProfile ((profile s)\<lparr>level := level (profile s) + 1,
                                         xp := xp (profile s) - requiredXp\<rparr>) s;
          s2 = emit [Emit ''user:levelup'' (PInt (level (profile s1)))] s1
      in if level (profile s2) = 5 then awardBadge ''LEVEL_5'' s2 else s2)"

lemma profile_emit: "profile (emit es s) = profile s"
  by (simp add: emit_def)

lemma profile_setProfile: "profile (setProfile p s) = p"
  by (simp add: setProfile_def)

lemma awardBadge_xp: "xp (profile (awardBadge b s)) = xp (profile s)"
  by (simp add: awardBadge_def Let_def profile_emit profile_setProfile split: member.split)

lemma awardBadge_level: "level (profile (awardBadge b s)) = level (profile s)"
  by (simp add: awardBadge_def Let_def profile_emit profile_setProfile split: member.split)

lemma levelUpOnce_xp:
  "xp (profile (levelUpOnce s)) = xp (profile s) - xpForNextLevel (level (profile s))"
  by (simp add: levelUpOnce_def Let_def awardBadge_xp profile_emit profile_setProfile)

lemma levelUpOnce_level: "level (profile (levelUpOnce s)) = level (profile s) + 1"
  by (simp add: levelUpOnce_def Let_def awardBadge_level profile_emit profile_setProfile)

lemma xpForNextLevel_nonneg: "0 \<le> xpForNextLevel lv"
  unfolding xpForNextLevel_def by (simp add: power_int_def)

lemma xpForNextLevel_ge_100: "1 \<le> lv \<Longrightarrow> 100 \<le> xpForNextLevel lv"
proof -
  assume lv: "1 \<le> lv"
  have "(1::real) \<le> (12 / 10) ^ nat (lv - 1)"
    by (rule one_le_power) simp
  hence "(100::real) \<le> 100 * (12 / 10) powi (lv - 1)"
    using lv by (simp add: power_int_def)
  hence "(of_int 100 :: real) \<le> 100 * (12 / 10) powi (lv - 1)"
    by simp
  thus ?thesis
    unfolding xpForNextLevel_def by (subst le_floor_iff)
qed

lemma xpForNextLevel_0: "xpForNextLevel 0 = 83"
  unfolding xpForNextLevel_def by code_simp

lemma xpForNextLevel_pos: "0 \<le> lv \<Longrightarrow> 0 < xpForNextLevel lv"
proof (cases "1 \<le> lv")
  case True
  thus ?thesis using xpForNextLevel_ge_100 [of lv] by simp
next
  case False
  assume "0 \<le> lv"
  with False have "lv = 0" by simp
  thus ?thesis by (simp add: xpForNextLevel_0)
qed

lemma xpForNextLevel_div:
  "1 \<le> lv \<Longrightarrow> xpForNextLevel lv = (100 * 6 ^ nat (lv - 1)) div 5 ^ nat (lv - 1)"
proof -
  assume lv: "1 \<le> lv"
  define n where "n = nat (lv - 1)"
  have "100 * (12 / 10 :: real) powi (lv - 1) = of_int (100 * 6 ^ n) / of_int (5 ^ n)"
    using lv by (simp add: power_int_def n_def power_divide)
  hence "xpForNextLevel lv = \<lfloor>(of_int (100 * 6 ^ n) :: real) / of_int (5 ^ n)\<rfloor>"
    unfolding xpForNextLevel_def by simp
  also have "\<dots> = (100 * 6 ^ n) div 5 ^ n"
    by (rule floor_divide_of_int_eq)
  finally show ?thesis by (simp add: n_def)
qed

text \<open>
  \<open>checkForLevelUp\<close> calls itself while the remaining xp still covers the next level.
  It terminates: a level that costs something lowers the xp, and a level that costs
  nothing is negative and rises towards 0.
\<close>

function checkForLevelUp :: "store \<Rightarrow> store" where
  "checkForLevelUp s =
     (if xp (profile s) \<ge> xpForNextLevel (level (profile s)) then
        (let s' = levelUpOnce s
         in if xp (profile s') \<ge> xpForNextLevel (level (profile s'))
            then checkForLevelUp s' else s')
      else s)"
  by pat_completeness auto
termination
proof (relation "measures [\<lambda>s. nat (xp (profile s)), \<lambda>s. nat (- level (profile s))]")
  show "wf (measures [\<lambda>s. nat (xp (profile s)), \<lambda>s. nat (- level (profile s))])"
    by simp
next
  fix s s'
  assume ge: "xpForNextLevel (level (profile s)) \<le> xp (profile s)"
    and s': "s' = levelUpOnce s"
  show "(s', s) \<in> measures [\<lambda>s. nat (xp (profile s)), \<lambda>s. nat (- level (profile s))]"
  proof (cases "xpForNextLevel (level (profile s)) = 0")
    case True
    hence "level (profile s) < 0"
      using xpForNextLevel_pos [of "level (profile s)"] by (cases "0 \<le> level (profile s)") auto
    thus ?thesis
      using True s' by (simp add: levelUpOnce_xp levelUpOnce_level)
  next
    case False
    hence "0 < xpForNextLevel (level (profile s))"
      using xpForNextLevel_nonneg [of "level (profile s)"] by simp
    thus ?thesis
      using ge s' by (simp add: levelUpOnce_xp levelUpOnce_level)
  qed
qed

declare checkForLevelUp.simps [simp del]

definition addXp :: "int \<Rightarrow> string \<Rightarrow> store \<Rightarrow> store" where
  "addXp amount reason s =
     (if amount \<le> 0 then s
      else
        let previousXp = xp (profile s);
            previousLevel = level (profile s);
            s1 = setProfile ((profile s)\<lparr>xp := xp (profile s) + amount\<rparr>) s;
            s2 = checkForLevelUp s1;
            s3 = emit [Save False,
                       Emit ''xp:added'' (PXp amount reason previousXp (xp (profile s2)))] s2
        in if level (profile s3) > previousLevel then emit [Toast ToastSuccess] s3 else s3)"

text \<open>
  The leveling algorithm in the words of the specification: while the xp covers the next
  level, deduct its cost and increment the level.
\<close>

function levelingReference :: "int \<Rightarrow> int \<Rightarrow> int \<times> int" where
  "levelingReference lv x =
     (if x \<ge> xpForNextLevel lv then levelingReference (lv + 1) (x - xpForNextLevel lv)
      else (lv, x))"
  by pat_completeness auto
termination
proof (relation "measures [\<lambda>(lv, x). nat x, \<lambda>(lv, x). nat (- lv)]")
  show "wf (measures [\<lambda>(lv, x). nat x, \<lambda>(lv :: int, x :: int). nat (- lv)])"
    by simp
next
  fix lv x :: int
  assume ge: "xpForNextLevel lv \<le> x"
  show "((lv + 1, x - xpForNextLevel lv), (lv, x))
          \<in> measures [\<lambda>(lv, x). nat x, \<lambda>(lv, x). nat (- lv)]"
  proof (cases "xpForNextLevel lv = 0")
    case True
    hence "lv < 0"
      using xpForNextLevel_pos [of lv] by (cases "0 \<le> lv") auto
    thus ?thesis using True by simp
  next
    case False
    hence "0 < xpForNextLevel lv"
      using xpForNextLevel_nonneg [of lv] by simp
    thus ?thesis using ge by simp
  qed
qed

declare levelingReference.simps [simp del]

subsection \<open>Results of the store's methods\<close>

text \<open>
  A method returns an object literal: its keys in order, \<open>success\<close> first. \<open>addXp\<close> and
  \<open>awardBadge\<close> return nothing.
\<close>

datatype rval =
    RBool bool
  | RStr string
  | RStrs "string list"
  | RGoal goal
  | REntry journalEntry
  | RFeeling obj
  | RChallenge challenge
  | RAppointment appointment

type_synonym result = "(string \<times> rval) list"

subsection \<open>Login\<close>

definition getInitialState :: "env \<Rightarrow> document" where
  "getInitialState e = INITIAL_STATE (loadDate e)"

definition login :: "env \<Rightarrow> string \<Rightarrow> store \<Rightarrow> store \<times> result" where
  "login e name s =
     (let validation = validateField name [Required, MinLength 2] ''Nome''
      in if length validation > 0
         then (emit [Toast ToastError] s,
               [(''success'', RBool False), (''errors'', RStrs validation)])
         else
           let s1 = s\<lparr>data := getInitialState e\<rparr>;
               s2 = s1\<lparr>data := (data s1)\<lparr>userName := Some (sanitize e name)\<rparr>\<rparr>;
               s3 = emit [Save True, Emit ''user:login'' (PStr (sanitize e name))] s2
           in (s3, [(''success'', RBool True)]))"

subsection \<open>Check-in streak\<close>

record streakResult =
  continued :: bool
  streak :: int

definition updateCheckInStreak :: "env \<Rightarrow> store \<Rightarrow> store \<times> streakResult" where
  "updateCheckInStreak e s =
     (let lastDate = lastCheckInDate (profile s)
      in if lastDate = Some (today e)
         then (s, \<lparr>continued = False, streak = checkInStreak (profile s)\<rparr>)
         else
           let p1 = (if lastDate = Some (yesterdayStr e)
                     then (profile s)\<lparr>checkInStreak := checkInStreak (profile s) + 1\<rparr>
                     else (profile s)\<lparr>checkInStreak := 1\<rparr>);
               s1 = setProfile (p1\<lparr>lastCheckInDate := Some (today e)\<rparr>) s;
               n = checkInStreak (profile s1);
               s2 = (if n = 3 then awardBadge ''STREAK_3'' s1 else s1);
               s3 = (if n = 7 then awardBadge ''STREAK_7'' s2 else s2);
               s4 = emit [Emit ''checkin:updated'' (PInt n), Save False] s3
           in (s4, \<lparr>continued = True, streak = n\<rparr>))"

subsection \<open>Goals\<close>

text \<open>\<open>xs.find(p)\<close> is \<^const>\<open>List.find\<close>; mutating the element found updates the first match.\<close>

fun updateFirst :: "('a \<Rightarrow> bool) \<Rightarrow> ('a \<Rightarrow> 'a) \<Rightarrow> 'a list \<Rightarrow> 'a list" where
  "updateFirst p f [] = []"
| "updateFirst p f (x # xs) = (if p x then f x # xs else x # updateFirst p f xs)"

text \<open>\<open>xs.splice(xs.findIndex(p), 1)\<close> when an element satisfies \<open>p\<close>.\<close>

fun removeFirst :: "('a \<Rightarrow> bool) \<Rightarrow> 'a list \<Rightarrow> 'a list" where
  "removeFirst p [] = []"
| "removeFirst p (x # xs) = (if p x then xs else x # removeFirst p xs)"

definition addGoal :: "env \<Rightarrow> string \<Rightarrow> store \<Rightarrow> store \<times> result" where
  "addGoal e title s =
     (case validateGoal e title of
        Invalid errors \<Rightarrow>
          (emit [Toast ToastError] s, [(''success'', RBool False), (''errors'', RStrs errors)])
      | Valid sanitized \<Rightarrow>
          let g = \<lparr>g_id = nowMs e, g_title = sanitized, g_completed = False,
                   g_createdAt = Some (nowISO e), g_completedAt = None\<rparr>;
              s1 = s\<lparr>data := (data s)\<lparr>goals := g # goals (data s)\<rparr>\<rparr>;
              s2 = emit [Save False, Emit ''goal:added'' (PGoal g), Toast ToastSuccess] s1
          in (s2, [(''success'', RBool True), (''goal'', RGoal g)]))"

definition toggleGoal :: "env \<Rightarrow> int \<Rightarrow> store \<Rightarrow> store \<times> result" where
  "toggleGoal e goalId s =
     (case List.find (\<lambda>g. g_id g = goalId) (goals (data s)) of
        None \<Rightarrow> (emit [Toast ToastError] s, [(''success'', RBool False)])
      | Some g0 \<Rightarrow>
          let g = g0\<lparr>g_completed := \<not> g_completed g0,
                      g_completedAt := (if \<not> g_completed g0 then Some (nowISO e) else None)\<rparr>;
              s1 = s\<lparr>data := (data s)\<lparr>goals :=
                       updateFirst (\<lambda>g. g_id g = goalId) (\<lambda>_. g) (goals (data s))\<rparr>\<rparr>;
              s2 = (if g_completed g then
                      let s' = addXp 50 (''Meta conclu'' @ [CHR 0xED] @ ''da'') s1;
                          completedCount = length (filter g_completed (goals (data s')))
                      in if completedCount \<ge> 5 then awardBadge ''GOAL_MASTER'' s' else s'
                    else s1);
              s3 = emit [Save False, Emit ''goal:toggled'' (PGoal g)] s2
          in (s3, [(''success'', RBool True), (''goal'', RGoal g)]))"

definition deleteGoal :: "int \<Rightarrow> store \<Rightarrow> store \<times> result" where
  "deleteGoal goalId s =
     (case List.find (\<lambda>g. g_id g = goalId) (goals (data s)) of
        None \<Rightarrow> (s, [(''success'', RBool False)])
      | Some deletedGoal \<Rightarrow>
          let s1 = s\<lparr>data := (data s)\<lparr>goals :=
                       removeFirst (\<lambda>g. g_id g = goalId) (goals (data s))\<rparr>\<rparr>;
              s2 = emit [Save False, Emit ''goal:deleted'' (PGoal deletedGoal),
                         Toast ToastSuccess] s1
          in (s2, [(''success'', RBool True)]))"

subsection \<open>Journal\<close>

definition getCurrentMood :: "store \<Rightarrow> jsval" where
  "getCurrentMood s =
     (if feelings (data s) = [] then JStr ''neutro''
      else js_prop (last (feelings (data s))) ''emotion'')"

text \<open>\<open>entryId\<close> is \<open>null\<close> by default; \<open>if (entryId)\<close> also takes the id 0 for absent.\<close>

definition saveJournalEntry :: "env \<Rightarrow> string \<Rightarrow> int option \<Rightarrow> store \<Rightarrow> store \<times> result" where
  "saveJournalEntry e content entryId s =
     (case validateJournalEntry e content of
        Invalid errors \<Rightarrow>
          (emit [Toast ToastError] s, [(''success'', RBool False), (''errors'', RStrs errors)])
      | Valid sanitized \<Rightarrow>
          if entryId \<noteq> None \<and> entryId \<noteq> Some 0 then
            (case List.find (\<lambda>en. Some (j_id en) = entryId) (journalEntries (data s)) of
               Some en0 \<Rightarrow>
                 let en = en0\<lparr>j_content := sanitized, j_updatedAt := Some (nowISO e)\<rparr>;
                     s1 = s\<lparr>data := (data s)\<lparr>journalEntries :=
                              updateFirst (\<lambda>en. Some (j_id en) = entryId) (\<lambda>_. en)
                                (journalEntries (data s))\<rparr>\<rparr>;
                     s2 = emit [Save False, Emit ''journal:updated'' (PEntry en),
                                Toast ToastSuccess] s1
                 in (s2, [(''success'', RBool True), (''entry'', REntry en)])
             | None \<Rightarrow> (s, [(''success'', RBool False)]))
          else
            let en = \<lparr>j_id = nowMs e, j_date = localeDate e, j_content = sanitized,
                      j_createdAt = Some (nowISO e), j_mood = getCurrentMood s,
                      j_updatedAt = None\<rparr>;
                isFirstEntry = (length (journalEntries (data s)) = 0);
                s1 = s\<lparr>data := (data s)\<lparr>journalEntries := en # journalEntries (data s)\<rparr>\<rparr>;
                s2 = addXp 25 (''Entrada no di'' @ [CHR 0xE1] @ ''rio'') s1;
                s3 = (if isFirstEntry then awardBadge ''JOURNAL_START'' s2 else s2);
                s4 = emit [Save False, Emit ''journal:created'' (PEntry en),
                           Toast ToastSuccess] s3
            in (s4, [(''success'', RBool True), (''entry'', REntry en)]))"

definition deleteJournalEntry :: "int \<Rightarrow> store \<Rightarrow> store \<times> result" where
  "deleteJournalEntry entryId s =
     (case List.find (\<lambda>en. j_id en = entryId) (journalEntries (data s)) of
        None \<Rightarrow> (s, [(''success'', RBool False)])
      | Some deleted \<Rightarrow>
          let s1 = s\<lparr>data := (data s)\<lparr>journalEntries :=
                       removeFirst (\<lambda>en. j_id en = entryId) (journalEntries (data s))\<rparr>\<rparr>;
              s2 = emit [Save False, Emit ''journal:deleted'' (PEntry deleted),
                         Toast ToastSuccess] s1
          in (s2, [(''success'', RBool True)]))"

subsection \<open>Feelings\<close>

definition recordFeeling :: "env \<Rightarrow> string \<Rightarrow> obj \<Rightarrow> store \<Rightarrow> store \<times> result" where
  "recordFeeling e emotion details s =
     (let feeling = js_spread [(''emotion'', JStr emotion), (''date'', JStr (today e)),
                               (''timestamp'', JStr (nowISO e))] details;
          s1 = s\<lparr>data := (data s)\<lparr>feelings := feelings (data s) @ [feeling]\<rparr>\<rparr>;
          s2 = s1\<lparr>data := (data s1)\<lparr>moodHistory := moodHistory (data s1)
                   @ [\<lparr>m_date = js_prop feeling ''date'', m_mood = emotion\<rparr>]\<rparr>\<rparr>;
          (s3, streakResult) = updateCheckInStreak e s2;
          s4 = addXp 10 (''Check-in di'' @ [CHR 0xE1] @ ''rio'') s3;
          s5 = emit [Save False,
                     Emit ''feeling:recorded'' (PFeeling feeling (streak streakResult))] s4
      in (s5, [(''success'', RBool True), (''feeling'', RFeeling feeling)]))"

subsection \<open>Challenges\<close>

definition completeChallenge :: "string \<Rightarrow> store \<Rightarrow> store \<times> result" where
  "completeChallenge challengeId s =
     (if challengeId \<in> set (completedChallenges (profile s))
      then (s, [(''success'', RBool False), (''message'', RStr (''Desafio j'' @ [CHR 0xE1] @ '' completado''))])
      else
        case List.find (\<lambda>c. c_id c = challengeId) CHALLENGES of
          None \<Rightarrow>
            (s, [(''success'', RBool False), (''message'', RStr (''Desafio n'' @ [CHR 0xE3] @ ''o encontrado''))])
        | Some ch \<Rightarrow>
            let s1 = setProfile ((profile s)\<lparr>completedChallenges :=
                        completedChallenges (profile s) @ [challengeId]\<rparr>) s;
                s2 = addXp (c_xp ch) (''Desafio: '' @ c_title ch) s1;
                s3 = (if length (completedChallenges (profile s2)) = length CHALLENGES
                      then awardBadge ''CHALLENGE_HERO'' s2 else s2);
                s4 = emit [Save False, Emit ''challenge:completed'' (PChallenge ch),
                           Toast ToastSuccess] s3
            in (s4, [(''success'', RBool True), (''challenge'', RChallenge ch)]))"

subsection \<open>Appointments\<close>

definition scheduleAppointment :: "env \<Rightarrow> appointmentData \<Rightarrow> store \<Rightarrow> store \<times> result" where
  "scheduleAppointment e d s =
     (case validateAppointment e d of
        Invalid errors \<Rightarrow>
          (emit [Toast ToastError] s, [(''success'', RBool False), (''errors'', RStrs errors)])
      | Valid _ \<Rightarrow>
          let ap = \<lparr>a_id = nowMs e, a_date = ad_date d @ '' '' @ ad_time d,
                    a_professional = ''A Confirmar'', a_status = ''pending'',
                    a_reason = Some (sanitize e (ad_reason d)),
                    a_createdAt = Some (nowISO e)\<rparr>;
              s1 = s\<lparr>data := (data s)\<lparr>appointments := ap # appointments (data s)\<rparr>\<rparr>;
              s2 = s1\<lparr>data := (data s1)\<lparr>availableSlots :=
                       updateFirst (\<lambda>sl. s_date sl = ad_date d \<and> s_time sl = ad_time d)
                         (\<lambda>sl. sl\<lparr>s_available := False\<rparr>) (availableSlots (data s1))\<rparr>\<rparr>;
              s3 = emit [Save False, Emit ''appointment:scheduled'' (PAppointment ap),
                         Toast ToastSuccess] s2
          in (s3, [(''success'', RBool True), (''appointment'', RAppointment ap)]))"

text \<open>\<open>str.split(' ')\<close>: the pieces between single spaces.\<close>

fun splitSpace :: "string \<Rightarrow> string list" where
  "splitSpace [] = [[]]"
| "splitSpace (c # cs) =
     (if c = CHR '' '' then [] # splitSpace cs
      else case splitSpace cs of p # ps \<Rightarrow> (c # p) # ps | [] \<Rightarrow> [[c]])"

definition cancelAppointment :: "int \<Rightarrow> store \<Rightarrow> store \<times> result" where
  "cancelAppointment appointmentId s =
     (case List.find (\<lambda>a. a_id a = appointmentId) (appointments (data s)) of
        None \<Rightarrow> (emit [Toast ToastError] s, [(''success'', RBool False)])
      | Some ap \<Rightarrow>
          let pieces = splitSpace (a_date ap);
              s1 = (case pieces of
                      date # time # _ \<Rightarrow>
                        s\<lparr>data := (data s)\<lparr>availableSlots :=
                            updateFirst (\<lambda>sl. s_date sl = date \<and> s_time sl = time)
                              (\<lambda>sl. sl\<lparr>s_available := True\<rparr>) (availableSlots (data s))\<rparr>\<rparr>
                    | _ \<Rightarrow> s);
              s2 = s1\<lparr>data := (data s1)\<lparr>appointments :=
                       removeFirst (\<lambda>a. a_id a = appointmentId) (appointments (data s1))\<rparr>\<rparr>;
              s3 = emit [Save False, Emit ''appointment:cancelled'' (PAppointment ap),
                         Toast ToastSuccess] s2
          in (s3, [(''success'', RBool True)]))"

definition changeSchedulingDate :: "env \<Rightarrow> string \<Rightarrow> store \<Rightarrow> store" where
  "changeSchedulingDate e direction s =
     (let d = addDays e (currentDate (data s)) (if direction = ''next'' then 1 else - 1);
          s1 = s\<lparr>data := (data s)\<lparr>currentDate := d\<rparr>\<rparr>
      in emit [Save False, Emit ''scheduling:date-changed'' (PStr d)] s1)"

subsection \<open>Numbers, \<open>toFixed\<close> and the average mood\<close>

text \<open>Arithmetic and comparison of numbers; \<open>NaN\<close> absorbs and compares false.\<close>

definition js_add :: "num \<Rightarrow> num \<Rightarrow> num" where
  "js_add a b = (case (a, b) of (Some x, Some y) \<Rightarrow> Some (x + y) | _ \<Rightarrow> None)"

definition js_sub :: "num \<Rightarrow> num \<Rightarrow> num" where
  "js_sub a b = (case (a, b) of (Some x, Some y) \<Rightarrow> Some (x - y) | _ \<Rightarrow> None)"

definition js_mul :: "num \<Rightarrow> num \<Rightarrow> num" where
  "js_mul a b = (case (a, b) of (Some x, Some y) \<Rightarrow> Some (x * y) | _ \<Rightarrow> None)"

text \<open>Every divisor of the program is a positive count; \<open>x / 0\<close> is left as \<open>NaN\<close>.\<close>

definition js_div :: "num \<Rightarrow> num \<Rightarrow> num" where
  "js_div a b =
     (case (a, b) of (Some x, Some y) \<Rightarrow> if y = 0 then None else Some (x / y) | _ \<Rightarrow> None)"

definition js_lt :: "num \<Rightarrow> num \<Rightarrow> bool" where
  "js_lt a b = (case (a, b) of (Some x, Some y) \<Rightarrow> x < y | _ \<Rightarrow> False)"

definition js_ge :: "num \<Rightarrow> num \<Rightarrow> bool" where
  "js_ge a b = (case (a, b) of (Some x, Some y) \<Rightarrow> x \<ge> y | _ \<Rightarrow> False)"

definition js_gt :: "num \<Rightarrow> num \<Rightarrow> bool" where
  "js_gt a b = js_lt b a"

text \<open>
  \<open>x.toFixed(1)\<close>: the integer \<open>n\<close> with \<open>n / 10\<close> nearest to \<open>|x|\<close> (the larger one at a
  tie), printed with one digit after the point and the sign of \<open>x\<close>; \<open>"NaN"\<close> for \<open>NaN\<close>.
\<close>

definition tenths :: "real \<Rightarrow> nat" where
  "tenths x = nat \<lfloor>\<bar>x\<bar> * 10 + 1 / 2\<rfloor>"

definition toFixed1 :: "num \<Rightarrow> string" where
  "toFixed1 a =
     (case a of
        None \<Rightarrow> ''NaN''
      | Some x \<Rightarrow>
          (if x < 0 then ''-'' else [])
            @ showNat (tenths x div 10) @ ''.'' @ showNat (tenths x mod 10))"






text \<open>A value that is a number on one path and a \<open>toFixed\<close> string on another.\<close>

datatype numOrText = Number real | Text string


text \<open>
  \<open>calculateAverageMood\<close>. The summand is \<open>moodMap[entry.mood] || 3\<close>: the mapped value, 3
  for a label that \<open>moodMap\<close> does not resolve, and for a label that names a member of
  \<open>Object.prototype\<close> that member, which turns the sum into a string and its quotient into
  \<open>NaN\<close>.
\<close>

definition moodMap :: "(string \<times> real) list" where
  "moodMap = [(''pessimo'', 1), (''ruim'', 2), (''neutro'', 3), (''bom'', 4),
              (''otimo'', 5), (''feliz'', 5)]"

definition moodOr3 :: "string \<Rightarrow> num" where
  "moodOr3 m = (case js_get moodMap m of Own v \<Rightarrow> Some v | Inherited \<Rightarrow> None | Missing \<Rightarrow> Some 3)"

definition calculateAverageMood :: "store \<Rightarrow> numOrText" where
  "calculateAverageMood s =
     (if length (moodHistory (data s)) = 0 then Number 0
      else
        let sum = foldl (\<lambda>acc entry. js_add acc (moodOr3 (m_mood entry))) (Some 0)
                    (moodHistory (data s))
        in Text (toFixed1 (js_div sum (Some (real (length (moodHistory (data s))))))))"



section \<open>The analytics engine (analytics.js)\<close>

record insight =
  i_type :: string
  i_message :: string
  i_icon :: string


definition calculateAverage :: "num list \<Rightarrow> num" where
  "calculateAverage numbers =
     (if length numbers = 0 then Some 0
      else js_div (foldl js_add (Some 0) numbers) (Some (real (length numbers))))"

definition calculateStdDev :: "num list \<Rightarrow> num" where
  "calculateStdDev numbers =
     (if length numbers = 0 then Some 0
      else
        let avg = calculateAverage numbers;
            squareDiffs = map (\<lambda>n. map_option (\<lambda>d. d ^ 2) (js_sub n avg)) numbers
        in map_option sqrt (calculateAverage squareDiffs))"

definition detectTrend :: "num list \<Rightarrow> string" where
  "detectTrend values =
     (if length values < 3 then ''insufficient_data''
      else
        let firstHalf = take (length values div 2) values;
            secondHalf = drop (length values div 2) values;
            avgFirst = calculateAverage firstHalf;
            avgSecond = calculateAverage secondHalf;
            difference = js_sub avgSecond avgFirst
        in if js_lt (map_option abs difference) (Some (3 / 10)) then ''stable''
           else if js_gt difference (Some 0) then ''improving'' else ''declining'')"

text \<open>
  \<open>moodMap[m.mood]\<close> without a default: a label that is not a key gives \<open>undefined\<close> or an
  inherited member, and every sum it enters is \<open>NaN\<close>.
\<close>

definition moodValue :: "string \<Rightarrow> num" where
  "moodValue m = (case js_get moodMap m of Own v \<Rightarrow> Some v | _ \<Rightarrow> None)"

text \<open>\<open>xs.slice(-n)\<close>: the last \<open>n\<close> elements.\<close>

definition lastN :: "nat \<Rightarrow> 'a list \<Rightarrow> 'a list" where
  "lastN n xs = drop (length xs - n) xs"

definition generateMoodInsights :: "num \<Rightarrow> string \<Rightarrow> num \<Rightarrow> insight list" where
  "generateMoodInsights avg7 tr vol =
     (if js_ge avg7 (Some 4)
      then [\<lparr>i_type = ''positive'',
             i_message = (''Seu humor est'' @ [CHR 0xE1] @ '' consistentemente positivo nos '' @ [CHR 0xFA] @ ''ltimos dias!''),
             i_icon = ''smile''\<rparr>]
      else if js_lt avg7 (Some (5 / 2))
      then [\<lparr>i_type = ''concern'',
             i_message = (''Seu humor tem estado baixo. Considere conversar com algu'' @ [CHR 0xE9] @ ''m de confian'' @ [CHR 0xE7] @ ''a.''),
             i_icon = ''alert-circle''\<rparr>]
      else [])
     @ (if tr = ''improving''
        then [\<lparr>i_type = ''positive'',
               i_message = ([CHR 0xD3] @ ''timo! Seu humor est'' @ [CHR 0xE1] @ '' melhorando ao longo dos dias.''),
               i_icon = ''trending-up''\<rparr>]
        else if tr = ''declining''
        then [\<lparr>i_type = ''warning'',
               i_message = ''Seu humor tem declinado. Que tal experimentar um dos desafios de bem-estar?'',
               i_icon = ''trending-down''\<rparr>]
        else [])
     @ (if js_gt vol (Some (3 / 2))
        then [\<lparr>i_type = ''info'',
               i_message = (''Seu humor tem variado bastante. Pr'' @ [CHR 0xE1] @ ''ticas de mindfulness podem ajudar.''),
               i_icon = ''activity''\<rparr>]
        else [])"

text \<open>
  The mood analysis. The fields \<open>weekdayPatterns\<close> and \<open>emotionCounts\<close> of the source's
  result (calendar arithmetic and a frequency table) are read by nothing modelled here
  and are left out.
\<close>

record moodData =
  avg7Days :: string
  avg30Days :: string
  trend :: string
  volatility :: string
  mood_insights :: "insight list"

datatype moodReport = NoData string | HasData moodData

definition analyzeMoodPatterns :: "store \<Rightarrow> moodReport" where
  "analyzeMoodPatterns s =
     (let history = moodHistory (data s)
      in if length history < 3
         then NoData (''Registre seu humor por mais dias para ver padr'' @ [CHR 0xF5] @ ''es'')
         else
           let last7Days = lastN 7 history;
               last30Days = lastN 30 history;
               avg7 = calculateAverage (map (\<lambda>m. moodValue (m_mood m)) last7Days);
               avg30 = calculateAverage (map (\<lambda>m. moodValue (m_mood m)) last30Days);
               tr = detectTrend (map (\<lambda>m. moodValue (m_mood m)) last7Days);
               vol = calculateStdDev (map (\<lambda>m. moodValue (m_mood m)) last7Days)
           in HasData \<lparr>avg7Days = toFixed1 avg7, avg30Days = toFixed1 avg30, trend = tr,
                        volatility = toFixed1 vol,
                        mood_insights = generateMoodInsights avg7 tr vol\<rparr>)"















section \<open>The store's mutating methods as operations\<close>

text \<open>
  One constructor per method that mutates the document, with the method's arguments;
  \<open>perform\<close> is the store after the call.
\<close>

datatype operation =
    Login string
  | AddXp int string
  | CheckForLevelUp
  | AwardBadge string
  | UpdateCheckInStreak
  | AddGoal string
  | ToggleGoal int
  | DeleteGoal int
  | SaveJournalEntry string "int option"
  | DeleteJournalEntry int
  | RecordFeeling string obj
  | CompleteChallenge string
  | ScheduleAppointment appointmentData
  | CancelAppointment int
  | ChangeSchedulingDate string

fun perform :: "env \<Rightarrow> operation \<Rightarrow> store \<Rightarrow> store" where
  "perform e (Login name) s = fst (login e name s)"
| "perform e (AddXp amount reason) s = addXp amount reason s"
| "perform e CheckForLevelUp s = checkForLevelUp s"
| "perform e (AwardBadge badgeId) s = awardBadge badgeId s"
| "perform e UpdateCheckInStreak s = fst (updateCheckInStreak e s)"
| "perform e (AddGoal title) s = fst (addGoal e title s)"
| "perform e (ToggleGoal goalId) s = fst (toggleGoal e goalId s)"
| "perform e (DeleteGoal goalId) s = fst (deleteGoal goalId s)"
| "perform e (SaveJournalEntry content entryId) s = fst (saveJournalEntry e content entryId s)"
| "perform e (DeleteJournalEntry entryId) s = fst (deleteJournalEntry entryId s)"
| "perform e (RecordFeeling emotion details) s = fst (recordFeeling e emotion details s)"
| "perform e (CompleteChallenge challengeId) s = fst (completeChallenge challengeId s)"
| "perform e (ScheduleAppointment d) s = fst (scheduleAppointment e d s)"
| "perform e (CancelAppointment appointmentId) s = fst (cancelAppointment appointmentId s)"
| "perform e (ChangeSchedulingDate direction) s = changeSchedulingDate e direction s"

text \<open>
  The object a method returns, for the methods that return a result object. (\<open>addXp\<close>,
  \<open>checkForLevelUp\<close>, \<open>awardBadge\<close> and \<open>changeSchedulingDate\<close> return nothing, and
  \<open>updateCheckInStreak\<close> returns its own \<open>{continued, streak}\<close>.)
\<close>

fun resultOf :: "env \<Rightarrow> operation \<Rightarrow> store \<Rightarrow> result option" where
  "resultOf e (Login name) s = Some (snd (login e name s))"
| "resultOf e (AddGoal title) s = Some (snd (addGoal e title s))"
| "resultOf e (ToggleGoal goalId) s = Some (snd (toggleGoal e goalId s))"
| "resultOf e (DeleteGoal goalId) s = Some (snd (deleteGoal goalId s))"
| "resultOf e (SaveJournalEntry content entryId) s = Some (snd (saveJournalEntry e content entryId s))"
| "resultOf e (DeleteJournalEntry entryId) s = Some (snd (deleteJournalEntry entryId s))"
| "resultOf e (RecordFeeling emotion details) s = Some (snd (recordFeeling e emotion details s))"
| "resultOf e (CompleteChallenge challengeId) s = Some (snd (completeChallenge challengeId s))"
| "resultOf e (ScheduleAppointment d) s = Some (snd (scheduleAppointment e d s))"
| "resultOf e (CancelAppointment appointmentId) s = Some (snd (cancelAppointment appointmentId s))"
| "resultOf e _ s = None"

text \<open>The object that \<open>recordFeeling\<close> builds and appends to \<open>feelings\<close>.\<close>

definition newFeeling :: "env \<Rightarrow> string \<Rightarrow> obj \<Rightarrow> obj" where
  "newFeeling e emotion details =
     js_spread [(''emotion'', JStr emotion), (''date'', JStr (today e)),
                (''timestamp'', JStr (nowISO e))] details"

text \<open>
  The shape all these result objects share: a boolean \<open>success\<close> first, and at most one more
  field, which is the list of validation errors, a message, or the entity produced.
\<close>

definition resultFields :: "string list" where
  "resultFields = [''success'', ''errors'', ''message'', ''goal'', ''entry'', ''feeling'',
                   ''challenge'', ''appointment'']"

definition wellShaped :: "result \<Rightarrow> bool" where
  "wellShaped r = ((case r of (k, RBool b) # _ \<Rightarrow> k = ''success'' | _ \<Rightarrow> False)
                   \<and> length r \<le> 2 \<and> list_all (\<lambda>k. k \<in> set resultFields) (map fst r))"

section \<open>Reference notions of the specification\<close>

text \<open>The arithmetic mean of a non-empty list of numbers.\<close>

definition mean :: "real list \<Rightarrow> real" where
  "mean xs = sum_list xs / real (length xs)"



text \<open>The value of a mood label: its entry in the mood map, and 3 for any other label.\<close>

definition moodScore :: "string \<Rightarrow> real" where
  "moodScore m = (case map_of moodMap m of Some v \<Rightarrow> v | None \<Rightarrow> 3)"


section \<open>Concrete inputs\<close>

text \<open>The store right after the module is loaded on 10 September 2025.\<close>

definition initialStore :: store where
  "initialStore = \<lparr>data = INITIAL_STATE ''2025-09-10'', effects = []\<rparr>"

text \<open>
  A clock reading on that day; the sanitizers of this environment leave their argument as
  it is (as they do for text without markup).
\<close>

definition env0 :: env where
  "env0 =
     \<lparr>today = ''2025-09-10'', yesterdayStr = ''2025-09-09'', nowMs = 1757498400000,
      nowISO = ''2025-09-10T10:00:00.000Z'', localeDate = ''10/09/2025'',
      loadDate = ''2025-09-10'', escapeHTML = (\<lambda>str. str), stripScripts = (\<lambda>str. str),
      isPast = (\<lambda>d t. False), addDays = (\<lambda>d n. d)\<rparr>"


text \<open>The initial store with a mood history of the given labels, oldest first.\<close>

definition withMoods :: "string list \<Rightarrow> store" where
  "withMoods ms =
     initialStore\<lparr>data := (data initialStore)\<lparr>moodHistory :=
        map (\<lambda>m. \<lparr>m_date = JStr ''2025-09-01'', m_mood = m\<rparr>) ms\<rparr>\<rparr>"



section \<open>What the gamification helpers leave alone\<close>

text \<open>
  \<open>awardBadge\<close> changes the badges only; \<open>checkForLevelUp\<close> and \<open>addXp\<close> change xp, level
  and badges only. Everything else of the document stays as it was.
\<close>

lemma data_emit: "data (emit es s) = data s"
  by (simp add: emit_def)

lemma data_setProfile: "data (setProfile p s) = (data s)\<lparr>userProfile := p\<rparr>"
  by (simp add: setProfile_def)

lemma awardBadge_data:
  "data (awardBadge b s)
     = (data s)\<lparr>userProfile := (profile s)\<lparr>badges :=
          (if b \<in> set (badges (profile s)) then badges (profile s)
           else badges (profile s) @ [b])\<rparr>\<rparr>"
  by (simp add: awardBadge_def Let_def data_emit data_setProfile split: member.split)

lemma levelUpOnce_data:
  "\<exists>x l bs. data (levelUpOnce s) = (data s)\<lparr>userProfile := (profile s)\<lparr>xp := x, level := l, badges := bs\<rparr>\<rparr>"
proof -
  let ?s1 = "setProfile ((profile s)\<lparr>level := level (profile s) + 1,
               xp := xp (profile s) - xpForNextLevel (level (profile s))\<rparr>) s"
  let ?s2 = "emit [Emit ''user:levelup'' (PInt (level (profile ?s1)))] ?s1"
  have d2: "data ?s2 = (data s)\<lparr>userProfile := (profile s)\<lparr>xp := xp (profile ?s2),
              level := level (profile ?s2), badges := badges (profile s)\<rparr>\<rparr>"
    by (simp add: data_emit data_setProfile)
  show ?thesis
  proof (cases "level (profile ?s2) = 5")
    case True
    hence "levelUpOnce s = awardBadge ''LEVEL_5'' ?s2"
      by (simp add: levelUpOnce_def Let_def)
    hence "data (levelUpOnce s)
             = (data ?s2)\<lparr>userProfile := (profile ?s2)\<lparr>badges :=
                 (if ''LEVEL_5'' \<in> set (badges (profile ?s2)) then badges (profile ?s2)
                  else badges (profile ?s2) @ [''LEVEL_5''])\<rparr>\<rparr>"
      by (simp only: awardBadge_data)
    also have "\<dots> = (data s)\<lparr>userProfile := (profile s)\<lparr>xp := xp (profile ?s2),
                 level := level (profile ?s2),
                 badges := (if ''LEVEL_5'' \<in> set (badges (profile ?s2)) then badges (profile ?s2)
                            else badges (profile ?s2) @ [''LEVEL_5''])\<rparr>\<rparr>"
      by (subst d2) (simp add: data_emit data_setProfile)
    finally show ?thesis by blast
  next
    case False
    hence "levelUpOnce s = ?s2"
      by (simp add: levelUpOnce_def Let_def)
    with d2 show ?thesis by metis
  qed
qed

lemma checkForLevelUp_data:
  "\<exists>x l bs. data (checkForLevelUp s)
               = (data s)\<lparr>userProfile := (profile s)\<lparr>xp := x, level := l, badges := bs\<rparr>\<rparr>"
proof (induction s rule: checkForLevelUp.induct)
  case (1 s)
  have same: "data s = (data s)\<lparr>userProfile := (profile s)\<lparr>xp := xp (profile s),
                level := level (profile s), badges := badges (profile s)\<rparr>\<rparr>"
    by simp
  show ?case
  proof (cases "xpForNextLevel (level (profile s)) \<le> xp (profile s)")
    case False
    hence "checkForLevelUp s = s"
      by (simp add: checkForLevelUp.simps [of s])
    with same show ?thesis by metis
  next
    case True
    let ?s' = "levelUpOnce s"
    obtain x l bs where once:
      "data ?s' = (data s)\<lparr>userProfile := (profile s)\<lparr>xp := x, level := l, badges := bs\<rparr>\<rparr>"
      using levelUpOnce_data [of s] by blast
    show ?thesis
    proof (cases "xpForNextLevel (level (profile ?s')) \<le> xp (profile ?s')")
      case again: True
      have eq: "checkForLevelUp s = checkForLevelUp ?s'"
        using True again by (simp add: checkForLevelUp.simps [of s])
      obtain x' l' bs' where rec:
        "data (checkForLevelUp ?s')
           = (data ?s')\<lparr>userProfile := (profile ?s')\<lparr>xp := x', level := l', badges := bs'\<rparr>\<rparr>"
        using "1.IH" [OF True refl again] by blast
      have "data (checkForLevelUp ?s')
              = (data s)\<lparr>userProfile := (profile s)\<lparr>xp := x', level := l', badges := bs'\<rparr>\<rparr>"
        by (subst rec, subst (1 2) once) simp
      thus ?thesis
        unfolding eq by blast
    next
      case stop: False
      have "checkForLevelUp s = ?s'"
        using True stop by (simp add: checkForLevelUp.simps [of s])
      with once show ?thesis by metis
    qed
  qed
qed

lemma addXp_data:
  "\<exists>x l bs. data (addXp amount reason s)
               = (data s)\<lparr>userProfile := (profile s)\<lparr>xp := x, level := l, badges := bs\<rparr>\<rparr>"
proof (cases "amount \<le> 0")
  case True
  have "data s = (data s)\<lparr>userProfile := (profile s)\<lparr>xp := xp (profile s),
          level := level (profile s), badges := badges (profile s)\<rparr>\<rparr>"
    by simp
  moreover have "addXp amount reason s = s"
    using True by (simp add: addXp_def)
  ultimately show ?thesis by metis
next
  case False
  let ?s1 = "setProfile ((profile s)\<lparr>xp := xp (profile s) + amount\<rparr>) s"
  have eq: "data (addXp amount reason s) = data (checkForLevelUp ?s1)"
    using False by (simp add: addXp_def Let_def data_emit)
  obtain x l bs where
    "data (checkForLevelUp ?s1)
       = (data ?s1)\<lparr>userProfile := (profile ?s1)\<lparr>xp := x, level := l, badges := bs\<rparr>\<rparr>"
    using checkForLevelUp_data [of ?s1] by blast
  hence "data (addXp amount reason s)
           = (data s)\<lparr>userProfile := (profile s)\<lparr>xp := x, level := l, badges := bs\<rparr>\<rparr>"
    unfolding eq by (simp add: data_setProfile)
  thus ?thesis by blast
qed

lemma awardBadge_checkInStreak: "checkInStreak (profile (awardBadge b s)) = checkInStreak (profile s)"
  by (simp add: awardBadge_data)

lemma awardBadge_lastCheckInDate:
  "lastCheckInDate (profile (awardBadge b s)) = lastCheckInDate (profile s)"
  by (simp add: awardBadge_data)

lemma awardBadge_completedChallenges:
  "completedChallenges (profile (awardBadge b s)) = completedChallenges (profile s)"
  by (simp add: awardBadge_data)

lemma addXp_checkInStreak:
  "checkInStreak (profile (addXp amount reason s)) = checkInStreak (profile s)"
proof -
  obtain x l bs where "data (addXp amount reason s)
      = (data s)\<lparr>userProfile := (profile s)\<lparr>xp := x, level := l, badges := bs\<rparr>\<rparr>"
    using addXp_data [of amount reason s] by blast
  thus ?thesis by simp
qed

lemma addXp_lastCheckInDate:
  "lastCheckInDate (profile (addXp amount reason s)) = lastCheckInDate (profile s)"
proof -
  obtain x l bs where "data (addXp amount reason s)
      = (data s)\<lparr>userProfile := (profile s)\<lparr>xp := x, level := l, badges := bs\<rparr>\<rparr>"
    using addXp_data [of amount reason s] by blast
  thus ?thesis by simp
qed

lemma addXp_completedChallenges:
  "completedChallenges (profile (addXp amount reason s)) = completedChallenges (profile s)"
proof -
  obtain x l bs where "data (addXp amount reason s)
      = (data s)\<lparr>userProfile := (profile s)\<lparr>xp := x, level := l, badges := bs\<rparr>\<rparr>"
    using addXp_data [of amount reason s] by blast
  thus ?thesis by simp
qed

text \<open>The parts of the document outside the profile, after \<open>addXp\<close> and \<open>awardBadge\<close>.\<close>

lemma addXp_rest:
  "feelings (data (addXp amount reason s)) = feelings (data s)"
  "moodHistory (data (addXp amount reason s)) = moodHistory (data s)"
  "goals (data (addXp amount reason s)) = goals (data s)"
  "journalEntries (data (addXp amount reason s)) = journalEntries (data s)"
proof -
  obtain x l bs where d: "data (addXp amount reason s)
      = (data s)\<lparr>userProfile := (profile s)\<lparr>xp := x, level := l, badges := bs\<rparr>\<rparr>"
    using addXp_data [of amount reason s] by blast
  show "feelings (data (addXp amount reason s)) = feelings (data s)"
    and "moodHistory (data (addXp amount reason s)) = moodHistory (data s)"
    and "goals (data (addXp amount reason s)) = goals (data s)"
    and "journalEntries (data (addXp amount reason s)) = journalEntries (data s)"
    by (simp_all add: d)
qed

lemma awardBadge_rest:
  "feelings (data (awardBadge b s)) = feelings (data s)"
  "moodHistory (data (awardBadge b s)) = moodHistory (data s)"
  "goals (data (awardBadge b s)) = goals (data s)"
  "journalEntries (data (awardBadge b s)) = journalEntries (data s)"
  by (simp_all add: awardBadge_data)

section \<open>Numbers and their decimal form\<close>



lemma js_add_simps:
  "js_add None b = None" "js_add a None = None" "js_add (Some x) (Some y) = Some (x + y)"
  by (simp_all add: js_add_def split: option.split)

lemma js_sub_simps:
  "js_sub None b = None" "js_sub a None = None" "js_sub (Some x) (Some y) = Some (x - y)"
  by (simp_all add: js_sub_def split: option.split)

lemma js_div_simps:
  "js_div None b = None" "js_div a None = None"
  "js_div (Some x) (Some y) = (if y = 0 then None else Some (x / y))"
  by (simp_all add: js_div_def split: option.split)

lemma js_mul_simps:
  "js_mul None b = None" "js_mul a None = None" "js_mul (Some x) (Some y) = Some (x * y)"
  by (simp_all add: js_mul_def split: option.split)

lemma js_lt_simps:
  "js_lt None b = False" "js_lt a None = False" "js_lt (Some x) (Some y) = (x < y)"
  by (simp_all add: js_lt_def split: option.split)


lemma js_gt_simps:
  "js_gt None b = False" "js_gt a None = False" "js_gt (Some x) (Some y) = (y < x)"
  by (simp_all add: js_gt_def js_lt_simps)
















section \<open>Averages\<close>

lemma foldl_js_add: "foldl js_add (Some a) (map Some xs) = Some (a + sum_list xs)"
  by (induction xs arbitrary: a) (simp_all add: js_add_simps add.assoc)

lemma calculateAverage_numbers:
  "xs \<noteq> [] \<Longrightarrow> calculateAverage (map Some xs) = Some (mean xs)"
  by (simp add: calculateAverage_def foldl_js_add js_div_simps mean_def)

section \<open>Leveling\<close>

lemma checkForLevelUp_profile:
  "(level (profile (checkForLevelUp s)), xp (profile (checkForLevelUp s)))
     = levelingReference (level (profile s)) (xp (profile s))"
proof (induction s rule: checkForLevelUp.induct)
  case (1 s)
  show ?case
  proof (cases "xpForNextLevel (level (profile s)) \<le> xp (profile s)")
    case False
    thus ?thesis
      by (simp add: checkForLevelUp.simps [of s] levelingReference.simps [of "level (profile s)"])
  next
    case True
    let ?s' = "levelUpOnce s"
    have ref: "levelingReference (level (profile s)) (xp (profile s))
                 = levelingReference (level (profile ?s')) (xp (profile ?s'))"
      using True
      by (simp add: levelingReference.simps [of "level (profile s)"] levelUpOnce_xp levelUpOnce_level)
    show ?thesis
    proof (cases "xpForNextLevel (level (profile ?s')) \<le> xp (profile ?s')")
      case again: True
      have "checkForLevelUp s = checkForLevelUp ?s'"
        using True again by (simp add: checkForLevelUp.simps [of s])
      thus ?thesis
        using "1.IH" [OF True refl again] ref by simp
    next
      case stop: False
      have "checkForLevelUp s = ?s'"
        using True stop by (simp add: checkForLevelUp.simps [of s])
      moreover have "levelingReference (level (profile ?s')) (xp (profile ?s'))
                       = (level (profile ?s'), xp (profile ?s'))"
        using stop by (simp add: levelingReference.simps [of "level (profile ?s')"])
      ultimately show ?thesis
        using ref by simp
    qed
  qed
qed

lemma levelingReference_normal:
  "levelingReference lv x = (lv', x') \<Longrightarrow> x' < xpForNextLevel lv'"
proof (induction lv x rule: levelingReference.induct)
  case (1 lv x)
  show ?case
  proof (cases "xpForNextLevel lv \<le> x")
    case True
    with "1.prems" have "levelingReference (lv + 1) (x - xpForNextLevel lv) = (lv', x')"
      by (simp add: levelingReference.simps [of lv])
    with "1.IH" True show ?thesis by simp
  next
    case False
    with "1.prems" show ?thesis
      by (simp add: levelingReference.simps [of lv])
  qed
qed

lemma addXp_profile:
  "0 < amount \<Longrightarrow>
     (level (profile (addXp amount reason s)), xp (profile (addXp amount reason s)))
       = levelingReference (level (profile s)) (xp (profile s) + amount)"
  using checkForLevelUp_profile [of "setProfile ((profile s)\<lparr>xp := xp (profile s) + amount\<rparr>) s"]
  by (simp add: addXp_def Let_def profile_emit profile_setProfile)

text \<open>
  Claim C1, as amended. For every store and every amount greater than 0, after
  \<open>addXp\<close> the pair (level, xp) is the one the specification's loop computes from the
  old level and the old xp plus the amount, however many levels the grant crosses, and
  the xp is below the cost of the next level. For an amount of 0 or less \<open>addXp\<close> returns
  at once and changes nothing.
\<close>

theorem addXp_levels:
  "(0 < amount \<longrightarrow>
      (level (profile (addXp amount reason s)), xp (profile (addXp amount reason s)))
         = levelingReference (level (profile s)) (xp (profile s) + amount)
      \<and> xp (profile (addXp amount reason s))
            < xpForNextLevel (level (profile (addXp amount reason s))))
   \<and> (amount \<le> 0 \<longrightarrow> addXp amount reason s = s)"
proof (intro conjI impI)
  assume pos: "0 < amount"
  show eq: "(level (profile (addXp amount reason s)), xp (profile (addXp amount reason s)))
         = levelingReference (level (profile s)) (xp (profile s) + amount)"
    by (rule addXp_profile [OF pos])
  show "xp (profile (addXp amount reason s))
            < xpForNextLevel (level (profile (addXp amount reason s)))"
    by (rule levelingReference_normal [OF eq [symmetric]])
next
  assume "amount \<le> 0"
  thus "addXp amount reason s = s" by (simp add: addXp_def)
qed

lemma initial_profile:
  "level (profile initialStore) = 2" "xp (profile initialStore) = 120"
  by (simp_all add: initialStore_def INITIAL_STATE_def)

lemma ref620: "levelingReference 2 620 = (5, 184)"
  by (simp add: levelingReference.simps xpForNextLevel_div)

theorem addXp_levels_witness:
  "(0::int) < 500
   \<and> level (profile (addXp 500 ''Bonus'' initialStore)) = 5
   \<and> xp (profile (addXp 500 ''Bonus'' initialStore)) = 184
   \<and> (184::int) < xpForNextLevel 5
   \<and> addXp (- 5) ''Bonus'' initialStore = initialStore"
  using addXp_levels [of 500 "''Bonus''" initialStore] addXp_levels [of "- 5" "''Bonus''" initialStore]
  by (auto simp: initial_profile ref620 xpForNextLevel_div)

text \<open>
  Claim C1 as stated fails for an amount that is not positive: from the initial profile
  (level 2, xp 120, where level 2 costs 120) \<open>addXp(0)\<close> leaves the xp at the cost of the
  next level, while the specification's loop would move on to level 3 with xp 0.
\<close>

theorem addXp_counterexample:
  "0 \<le> xp (profile initialStore) \<and> 1 \<le> level (profile initialStore)
   \<and> \<not> xp (profile (addXp 0 [] initialStore))
          < xpForNextLevel (level (profile (addXp 0 [] initialStore)))
   \<and> (level (profile (addXp 0 [] initialStore)), xp (profile (addXp 0 [] initialStore)))
        \<noteq> levelingReference (level (profile initialStore)) (xp (profile initialStore) + 0)"
  by (simp add: addXp_def initial_profile levelingReference.simps xpForNextLevel_div)

section \<open>Check-in streak\<close>

lemma updateCheckInStreak_streak:
  "checkInStreak (profile (fst (updateCheckInStreak e s)))
     = (if lastCheckInDate (profile s) = Some (today e) then checkInStreak (profile s)
        else if lastCheckInDate (profile s) = Some (yesterdayStr e)
        then checkInStreak (profile s) + 1 else 1)"
  by (simp add: updateCheckInStreak_def Let_def profile_emit profile_setProfile
        awardBadge_checkInStreak)

lemma updateCheckInStreak_last:
  "lastCheckInDate (profile (fst (updateCheckInStreak e s))) = Some (today e)"
  by (simp add: updateCheckInStreak_def Let_def profile_emit profile_setProfile
        awardBadge_lastCheckInDate)


lemma recordFeeling_streak:
  "checkInStreak (profile (fst (recordFeeling e emotion details s)))
     = (if lastCheckInDate (profile s) = Some (today e) then checkInStreak (profile s)
        else if lastCheckInDate (profile s) = Some (yesterdayStr e)
        then checkInStreak (profile s) + 1 else 1)"
  by (simp add: recordFeeling_def Let_def case_prod_beta profile_emit addXp_checkInStreak
        updateCheckInStreak_streak)

lemma recordFeeling_last:
  "lastCheckInDate (profile (fst (recordFeeling e emotion details s))) = Some (today e)"
  by (simp add: recordFeeling_def Let_def case_prod_beta profile_emit addXp_lastCheckInDate
        updateCheckInStreak_last)






section \<open>Badges\<close>

lemma count_list_distinct: "distinct xs \<Longrightarrow> x \<in> set xs \<Longrightarrow> count_list xs x = 1"
  by (induction xs) auto

lemma awardBadge_badges:
  "badges (profile (awardBadge b s))
     = (if b \<in> set (badges (profile s)) then badges (profile s) else badges (profile s) @ [b])"
  by (simp add: awardBadge_data)

lemma awardBadge_held: "b \<in> set (badges (profile (awardBadge b s)))"
  by (simp add: awardBadge_badges)

lemma awardBadge_again: "awardBadge b (awardBadge b s) = awardBadge b s"
  by (simp add: awardBadge_def [of b "awardBadge b s"] awardBadge_held)

lemma awardBadge_distinct:
  "distinct (badges (profile s)) \<Longrightarrow> distinct (badges (profile (awardBadge b s)))"
  by (simp add: awardBadge_badges)

lemma levelUpOnce_distinct:
  "distinct (badges (profile s)) \<Longrightarrow> distinct (badges (profile (levelUpOnce s)))"
  by (simp add: levelUpOnce_def Let_def awardBadge_distinct profile_emit profile_setProfile)

lemma checkForLevelUp_distinct:
  "distinct (badges (profile s)) \<Longrightarrow> distinct (badges (profile (checkForLevelUp s)))"
proof (induction s rule: checkForLevelUp.induct)
  case (1 s)
  show ?case
  proof (cases "xpForNextLevel (level (profile s)) \<le> xp (profile s)")
    case False
    with "1.prems" show ?thesis
      by (simp add: checkForLevelUp.simps [of s])
  next
    case True
    have once: "distinct (badges (profile (levelUpOnce s)))"
      by (rule levelUpOnce_distinct [OF "1.prems"])
    show ?thesis
    proof (cases "xpForNextLevel (level (profile (levelUpOnce s))) \<le> xp (profile (levelUpOnce s))")
      case again: True
      have "checkForLevelUp s = checkForLevelUp (levelUpOnce s)"
        using True again by (simp add: checkForLevelUp.simps [of s])
      thus ?thesis
        using "1.IH" [OF True refl again once] by simp
    next
      case stop: False
      have "checkForLevelUp s = levelUpOnce s"
        using True stop by (simp add: checkForLevelUp.simps [of s])
      thus ?thesis using once by simp
    qed
  qed
qed

lemma addXp_distinct:
  "distinct (badges (profile s)) \<Longrightarrow> distinct (badges (profile (addXp amount reason s)))"
proof (cases "amount \<le> 0")
  case True
  assume "distinct (badges (profile s))"
  with True show ?thesis by (simp add: addXp_def)
next
  case False
  assume d: "distinct (badges (profile s))"
  let ?s1 = "setProfile ((profile s)\<lparr>xp := xp (profile s) + amount\<rparr>) s"
  have "distinct (badges (profile ?s1))"
    using d by (simp add: profile_setProfile)
  hence "distinct (badges (profile (checkForLevelUp ?s1)))"
    by (rule checkForLevelUp_distinct)
  thus ?thesis
    using False by (simp add: addXp_def Let_def profile_emit)
qed

lemma updateCheckInStreak_distinct:
  "distinct (badges (profile s)) \<Longrightarrow> distinct (badges (profile (fst (updateCheckInStreak e s))))"
  by (simp add: updateCheckInStreak_def Let_def profile_emit profile_setProfile awardBadge_distinct)

lemma login_distinct: "distinct (badges (profile s)) \<Longrightarrow> distinct (badges (profile (fst (login e name s))))"
  by (simp add: login_def Let_def profile_emit getInitialState_def INITIAL_STATE_def emit_def)

lemma addGoal_distinct: "distinct (badges (profile s)) \<Longrightarrow> distinct (badges (profile (fst (addGoal e title s))))"
  by (simp add: addGoal_def Let_def profile_emit split: validation.split)

lemma toggleGoal_distinct:
  "distinct (badges (profile s)) \<Longrightarrow> distinct (badges (profile (fst (toggleGoal e goalId s))))"
  by (simp add: toggleGoal_def Let_def profile_emit awardBadge_distinct addXp_distinct
        split: option.split)

lemma deleteGoal_distinct:
  "distinct (badges (profile s)) \<Longrightarrow> distinct (badges (profile (fst (deleteGoal goalId s))))"
  by (simp add: deleteGoal_def Let_def profile_emit split: option.split)

lemma saveJournalEntry_distinct:
  "distinct (badges (profile s))
     \<Longrightarrow> distinct (badges (profile (fst (saveJournalEntry e content entryId s))))"
  by (simp add: saveJournalEntry_def Let_def profile_emit awardBadge_distinct addXp_distinct
        split: validation.split option.split)

lemma deleteJournalEntry_distinct:
  "distinct (badges (profile s)) \<Longrightarrow> distinct (badges (profile (fst (deleteJournalEntry entryId s))))"
  by (simp add: deleteJournalEntry_def Let_def profile_emit split: option.split)

lemma recordFeeling_distinct:
  "distinct (badges (profile s))
     \<Longrightarrow> distinct (badges (profile (fst (recordFeeling e emotion details s))))"
  by (simp add: recordFeeling_def Let_def case_prod_beta profile_emit addXp_distinct
        updateCheckInStreak_distinct)

lemma completeChallenge_distinct:
  "distinct (badges (profile s))
     \<Longrightarrow> distinct (badges (profile (fst (completeChallenge challengeId s))))"
  by (simp add: completeChallenge_def Let_def profile_emit profile_setProfile awardBadge_distinct
        addXp_distinct split: option.split)

lemma scheduleAppointment_distinct:
  "distinct (badges (profile s)) \<Longrightarrow> distinct (badges (profile (fst (scheduleAppointment e d s))))"
  by (simp add: scheduleAppointment_def Let_def profile_emit split: validation.split)

lemma cancelAppointment_distinct:
  "distinct (badges (profile s))
     \<Longrightarrow> distinct (badges (profile (fst (cancelAppointment appointmentId s))))"
  by (simp add: cancelAppointment_def Let_def profile_emit split: option.split list.split)

lemma changeSchedulingDate_distinct:
  "distinct (badges (profile s))
     \<Longrightarrow> distinct (badges (profile (changeSchedulingDate e direction s)))"
  by (simp add: changeSchedulingDate_def Let_def profile_emit)

lemma perform_distinct:
  "distinct (badges (profile s)) \<Longrightarrow> distinct (badges (profile (perform e opn s)))"
  by (cases opn)
     (simp_all add: login_distinct addXp_distinct checkForLevelUp_distinct awardBadge_distinct
        updateCheckInStreak_distinct addGoal_distinct toggleGoal_distinct deleteGoal_distinct
        saveJournalEntry_distinct deleteJournalEntry_distinct recordFeeling_distinct
        completeChallenge_distinct scheduleAppointment_distinct cancelAppointment_distinct
        changeSchedulingDate_distinct)

text \<open>
  Claim C4. On a document whose badges are pairwise different (the data model's set of
  badge ids), calling \<open>awardBadge\<close> twice with the same id leaves the id exactly once in
  \<open>badges\<close>; the second call changes nothing and notifies nobody, so \<open>badge:awarded\<close>
  fires on the first call only (there it fires when the id was not held and resolves in
  the badge table); and after every operation of the store the badges are still pairwise
  different.
\<close>

theorem awardBadge_idempotent:
  assumes "distinct (badges (profile s))"
  shows "count_list (badges (profile (awardBadge b (awardBadge b s)))) b = 1
       \<and> effects (awardBadge b (awardBadge b s)) = effects (awardBadge b s)
       \<and> awardBadge b (awardBadge b s) = awardBadge b s
       \<and> (b \<notin> set (badges (profile s)) \<and> js_get BADGES b \<noteq> Missing \<longrightarrow>
            effects (awardBadge b s)
              = effects s @ [Toast ToastSuccess, Emit ''badge:awarded'' (PBadge (js_get BADGES b)),
                             Save False])
       \<and> distinct (badges (profile (perform e opn s)))"
proof (intro conjI impI)
  have "distinct (badges (profile (awardBadge b s)))"
    by (rule awardBadge_distinct [OF assms])
  thus "count_list (badges (profile (awardBadge b (awardBadge b s)))) b = 1"
    by (simp add: awardBadge_again count_list_distinct awardBadge_held)
  show "effects (awardBadge b (awardBadge b s)) = effects (awardBadge b s)"
    by (simp add: awardBadge_again)
  show "awardBadge b (awardBadge b s) = awardBadge b s"
    by (rule awardBadge_again)
  show "distinct (badges (profile (perform e opn s)))"
    by (rule perform_distinct [OF assms])
next
  assume "b \<notin> set (badges (profile s)) \<and> js_get BADGES b \<noteq> Missing"
  thus "effects (awardBadge b s)
          = effects s @ [Toast ToastSuccess, Emit ''badge:awarded'' (PBadge (js_get BADGES b)),
                         Save False]"
    by (cases "js_get BADGES b") (simp_all add: awardBadge_def Let_def emit_def setProfile_def)
qed

lemma initial_badges: "badges (profile initialStore) = [''JOURNAL_START'', ''STREAK_3'']"
  by (simp add: initialStore_def INITIAL_STATE_def)

lemma initial_effects: "effects initialStore = []"
  by (simp add: initialStore_def)

lemma BADGES_LEVEL_5: "js_get BADGES ''LEVEL_5'' =
    Own \<lparr>b_id = ''LEVEL_5'', b_title = ''N'' @ [CHR 0xED] @ ''vel 5'', b_icon = ''star'',
         b_description = ''Alcan'' @ [CHR 0xE7] @ ''ou o n'' @ [CHR 0xED] @ ''vel 5 de bem-estar.''\<rparr>"
  by (simp add: js_get_def BADGES_def)

theorem awardBadge_idempotent_witness:
  "distinct (badges (profile initialStore))
   \<and> ''LEVEL_5'' \<notin> set (badges (profile initialStore))
   \<and> js_get BADGES ''LEVEL_5'' \<noteq> Missing
   \<and> badges (profile (awardBadge ''LEVEL_5'' (awardBadge ''LEVEL_5'' initialStore)))
        = [''JOURNAL_START'', ''STREAK_3'', ''LEVEL_5'']
   \<and> count_list (badges (profile (awardBadge ''LEVEL_5'' (awardBadge ''LEVEL_5'' initialStore))))
        ''LEVEL_5'' = 1
   \<and> effects (awardBadge ''LEVEL_5'' (awardBadge ''LEVEL_5'' initialStore))
        = [Toast ToastSuccess, Emit ''badge:awarded'' (PBadge (js_get BADGES ''LEVEL_5'')), Save False]
   \<and> distinct (badges (profile (perform env0 (AddXp 500 ''Bonus'') initialStore)))"
  using awardBadge_idempotent [of initialStore "''LEVEL_5''" env0 "AddXp 500 ''Bonus''"]
  by (simp add: initial_badges initial_effects BADGES_LEVEL_5 awardBadge_badges)

section \<open>Challenges\<close>

lemma find_absent: "x \<notin> set (map f xs) \<Longrightarrow> List.find (\<lambda>c. f c = x) xs = None"
  by (induction xs) auto

lemma completeChallenge_done:
  "challengeId \<in> set (completedChallenges (profile s)) \<Longrightarrow>
     completeChallenge challengeId s
       = (s, [(''success'', RBool False),
              (''message'', RStr (''Desafio j'' @ [CHR 0xE1] @ '' completado''))])"
  by (simp add: completeChallenge_def)

lemma completeChallenge_unknown:
  "challengeId \<notin> set (completedChallenges (profile s)) \<Longrightarrow>
   challengeId \<notin> set (map c_id CHALLENGES) \<Longrightarrow>
     completeChallenge challengeId s
       = (s, [(''success'', RBool False),
              (''message'', RStr (''Desafio n'' @ [CHR 0xE3] @ ''o encontrado''))])"
  by (simp add: completeChallenge_def find_absent)

lemma completeChallenge_marks:
  "List.find (\<lambda>c. c_id c = challengeId) CHALLENGES = Some ch \<Longrightarrow>
   challengeId \<notin> set (completedChallenges (profile s)) \<Longrightarrow>
     completedChallenges (profile (fst (completeChallenge challengeId s)))
       = completedChallenges (profile s) @ [challengeId]"
  by (simp add: completeChallenge_def Let_def profile_emit awardBadge_completedChallenges
        addXp_completedChallenges profile_setProfile)

lemma completeChallenge_second:
  "fst (completeChallenge challengeId (fst (completeChallenge challengeId s)))
     = fst (completeChallenge challengeId s)
   \<and> map_of (snd (completeChallenge challengeId (fst (completeChallenge challengeId s))))
        ''success'' = Some (RBool False)"
proof (cases "challengeId \<in> set (completedChallenges (profile s))")
  case True
  thus ?thesis by (simp add: completeChallenge_done)
next
  case False
  show ?thesis
  proof (cases "List.find (\<lambda>c. c_id c = challengeId) CHALLENGES")
    case None
    hence "completeChallenge challengeId s
             = (s, [(''success'', RBool False),
                    (''message'', RStr (''Desafio n'' @ [CHR 0xE3] @ ''o encontrado''))])"
      using False by (simp add: completeChallenge_def)
    thus ?thesis by simp
  next
    case (Some ch)
    have "challengeId \<in> set (completedChallenges (profile (fst (completeChallenge challengeId s))))"
      by (simp add: completeChallenge_marks [OF Some False])
    thus ?thesis by (simp add: completeChallenge_done)
  qed
qed

text \<open>
  Claim C5. \<open>completeChallenge\<close> is exactly-once: for an id already among the completed
  challenges the call fails and returns the store as it was; for an id absent from the
  challenge table it fails with the store as it was (with the not-found message when the
  id is not among the completed ones, which are tested first); and a second call for the
  same id, whatever the first did, fails and changes nothing, so it grants no xp.
\<close>

theorem completeChallenge_exactly_once:
  "(challengeId \<in> set (completedChallenges (profile s)) \<longrightarrow>
      completeChallenge challengeId s
        = (s, [(''success'', RBool False),
               (''message'', RStr (''Desafio j'' @ [CHR 0xE1] @ '' completado''))]))
   \<and> (challengeId \<notin> set (map c_id CHALLENGES) \<longrightarrow>
        fst (completeChallenge challengeId s) = s
        \<and> map_of (snd (completeChallenge challengeId s)) ''success'' = Some (RBool False)
        \<and> (challengeId \<notin> set (completedChallenges (profile s)) \<longrightarrow>
             snd (completeChallenge challengeId s)
               = [(''success'', RBool False),
                  (''message'', RStr (''Desafio n'' @ [CHR 0xE3] @ ''o encontrado''))]))
   \<and> fst (completeChallenge challengeId (fst (completeChallenge challengeId s)))
        = fst (completeChallenge challengeId s)
   \<and> map_of (snd (completeChallenge challengeId (fst (completeChallenge challengeId s))))
        ''success'' = Some (RBool False)
   \<and> xp (profile (fst (completeChallenge challengeId (fst (completeChallenge challengeId s)))))
        = xp (profile (fst (completeChallenge challengeId s)))"
proof (intro conjI impI)
  assume "challengeId \<in> set (completedChallenges (profile s))"
  thus "completeChallenge challengeId s
        = (s, [(''success'', RBool False),
               (''message'', RStr (''Desafio j'' @ [CHR 0xE1] @ '' completado''))])"
    by (rule completeChallenge_done)
next
  assume absent: "challengeId \<notin> set (map c_id CHALLENGES)"
  show "fst (completeChallenge challengeId s) = s"
    using absent
    by (cases "challengeId \<in> set (completedChallenges (profile s))")
       (simp_all add: completeChallenge_done completeChallenge_unknown)
  show "map_of (snd (completeChallenge challengeId s)) ''success'' = Some (RBool False)"
    using absent
    by (cases "challengeId \<in> set (completedChallenges (profile s))")
       (simp_all add: completeChallenge_done completeChallenge_unknown)
  assume "challengeId \<notin> set (completedChallenges (profile s))"
  thus "snd (completeChallenge challengeId s)
               = [(''success'', RBool False),
                  (''message'', RStr (''Desafio n'' @ [CHR 0xE3] @ ''o encontrado''))]"
    using absent by (simp add: completeChallenge_unknown)
next
  show "fst (completeChallenge challengeId (fst (completeChallenge challengeId s)))
        = fst (completeChallenge challengeId s)"
    using completeChallenge_second [of challengeId s] by simp
  thus "xp (profile (fst (completeChallenge challengeId (fst (completeChallenge challengeId s)))))
        = xp (profile (fst (completeChallenge challengeId s)))"
    by simp
  show "map_of (snd (completeChallenge challengeId (fst (completeChallenge challengeId s))))
        ''success'' = Some (RBool False)"
    using completeChallenge_second [of challengeId s] by simp
qed

lemma initial_completed:
  "completedChallenges (profile initialStore) = [''challenge_1'', ''challenge_2'']"
  by (simp add: initialStore_def INITIAL_STATE_def)

lemma CHALLENGES_ids:
  "map c_id CHALLENGES = [''challenge_1'', ''challenge_2'', ''challenge_3'', ''challenge_4'', ''challenge_5'']"
  by (simp add: CHALLENGES_def)

theorem completeChallenge_exactly_once_witness:
  "''challenge_1'' \<in> set (completedChallenges (profile initialStore))
   \<and> fst (completeChallenge ''challenge_1'' initialStore) = initialStore
   \<and> ''challenge_9'' \<notin> set (map c_id CHALLENGES)
   \<and> ''challenge_9'' \<notin> set (completedChallenges (profile initialStore))
   \<and> completeChallenge ''challenge_9'' initialStore
        = (initialStore, [(''success'', RBool False),
                          (''message'', RStr (''Desafio n'' @ [CHR 0xE3] @ ''o encontrado''))])
   \<and> xp (profile (fst (completeChallenge ''challenge_3''
            (fst (completeChallenge ''challenge_3'' initialStore)))))
        = xp (profile (fst (completeChallenge ''challenge_3'' initialStore)))"
  using completeChallenge_exactly_once [of "''challenge_1''" initialStore]
        completeChallenge_exactly_once [of "''challenge_9''" initialStore]
        completeChallenge_exactly_once [of "''challenge_3''" initialStore]
  by (simp add: initial_completed CHALLENGES_ids prod_eq_iff)

section \<open>Login\<close>

lemma length_trim: "length (trim s) \<le> length s"
proof -
  have "length (trim s) \<le> length (dropWhile isWhitespace s)"
    unfolding trim_def by (simp add: length_dropWhile_le order_trans [OF length_dropWhile_le])
  also have "\<dots> \<le> length s" by (rule length_dropWhile_le)
  finally show ?thesis .
qed

lemma validate_name:
  "validateField name [Required, MinLength 2] ''Nome'' = []
     \<longleftrightarrow> trim name \<noteq> [] \<and> 2 \<le> length name"
  by (auto simp: validateField_def trim_def)

lemma login_rejects:
  "validateField name [Required, MinLength 2] ''Nome'' \<noteq> [] \<Longrightarrow>
     login e name s
       = (emit [Toast ToastError] s,
          [(''success'', RBool False),
           (''errors'', RStrs (validateField name [Required, MinLength 2] ''Nome''))])"
  by (simp add: login_def Let_def)

lemma login_accepts:
  "validateField name [Required, MinLength 2] ''Nome'' = [] \<Longrightarrow>
     data (fst (login e name s)) = (INITIAL_STATE (loadDate e))\<lparr>userName := Some (sanitize e name)\<rparr>
     \<and> snd (login e name s) = [(''success'', RBool True)]"
  by (simp add: login_def Let_def data_emit getInitialState_def)

text \<open>
  Claim C7, as amended. \<open>login\<close> measures the name as given, not the trimmed name: a name
  that is empty, consists of white space only, or has fewer than 2 characters is
  rejected with the validation errors and the document is unchanged; every other name
  (in particular every name whose trimmed length is at least 2) resets the document to
  the initial state and sets \<open>userName\<close> to the sanitized name.
\<close>

theorem login_validation:
  "(trim name = [] \<or> length name < 2 \<longrightarrow>
      data (fst (login e name s)) = data s
      \<and> validateField name [Required, MinLength 2] ''Nome'' \<noteq> []
      \<and> snd (login e name s)
           = [(''success'', RBool False),
              (''errors'', RStrs (validateField name [Required, MinLength 2] ''Nome''))])
   \<and> (trim name \<noteq> [] \<and> 2 \<le> length name \<longrightarrow>
        data (fst (login e name s))
          = (INITIAL_STATE (loadDate e))\<lparr>userName := Some (sanitize e name)\<rparr>
        \<and> snd (login e name s) = [(''success'', RBool True)])
   \<and> (2 \<le> length (trim name) \<longrightarrow>
        data (fst (login e name s))
          = (INITIAL_STATE (loadDate e))\<lparr>userName := Some (sanitize e name)\<rparr>
        \<and> snd (login e name s) = [(''success'', RBool True)])"
proof (intro conjI impI)
  assume bad: "trim name = [] \<or> length name < 2"
  hence inv: "validateField name [Required, MinLength 2] ''Nome'' \<noteq> []"
    using validate_name [of name] by auto
  show "validateField name [Required, MinLength 2] ''Nome'' \<noteq> []" by (rule inv)
  show "data (fst (login e name s)) = data s"
    by (simp add: login_rejects [OF inv] data_emit)
  show "snd (login e name s)
           = [(''success'', RBool False),
              (''errors'', RStrs (validateField name [Required, MinLength 2] ''Nome''))]"
    by (simp add: login_rejects [OF inv])
next
  assume "trim name \<noteq> [] \<and> 2 \<le> length name"
  hence ok: "validateField name [Required, MinLength 2] ''Nome'' = []"
    by (simp add: validate_name)
  show "data (fst (login e name s))
          = (INITIAL_STATE (loadDate e))\<lparr>userName := Some (sanitize e name)\<rparr>"
    using login_accepts [OF ok] by simp
  show "snd (login e name s) = [(''success'', RBool True)]"
    using login_accepts [OF ok] by simp
next
  assume long: "2 \<le> length (trim name)"
  hence "trim name \<noteq> []" by auto
  moreover have "2 \<le> length name"
    using long length_trim [of name] by simp
  ultimately have ok: "validateField name [Required, MinLength 2] ''Nome'' = []"
    by (simp add: validate_name)
  show "data (fst (login e name s))
          = (INITIAL_STATE (loadDate e))\<lparr>userName := Some (sanitize e name)\<rparr>"
    using login_accepts [OF ok] by simp
  show "snd (login e name s) = [(''success'', RBool True)]"
    using login_accepts [OF ok] by simp
qed

lemma trim_examples:
  "trim '' a'' = ''a''" "trim ''Ana'' = ''Ana''" "trim ''  '' = []" "trim ''a'' = ''a''"
  by (simp_all add: trim_def isWhitespace_def)

theorem login_validation_witness:
  "(trim ''  '' = [] \<or> length ''  '' < 2)
   \<and> data (fst (login env0 ''  '' initialStore)) = data initialStore
   \<and> map_of (snd (login env0 ''  '' initialStore)) ''success'' = Some (RBool False)
   \<and> (trim ''a'' = [] \<or> length ''a'' < 2)
   \<and> data (fst (login env0 ''a'' initialStore)) = data initialStore
   \<and> trim ''Ana'' \<noteq> [] \<and> 2 \<le> length ''Ana'' \<and> 2 \<le> length (trim ''Ana'')
   \<and> userName (data (fst (login env0 ''Ana'' initialStore))) = Some ''Ana''
   \<and> snd (login env0 ''Ana'' initialStore) = [(''success'', RBool True)]"
  using login_validation [of "''  ''" env0 initialStore]
        login_validation [of "''a''" env0 initialStore]
        login_validation [of "''Ana''" env0 initialStore]
  by (simp add: trim_examples sanitize_def env0_def)

text \<open>
  Claim C7 as stated fails for a name padded with white space: \<open>" a"\<close> has trimmed length
  1, yet it passes both rules (it is not blank, and its length is 2) and the login goes
  through.
\<close>

theorem login_untrimmed_counterexample:
  "length (trim '' a'') < 2
   \<and> snd (login env0 '' a'' initialStore) = [(''success'', RBool True)]
   \<and> userName (data initialStore) = None
   \<and> userName (data (fst (login env0 '' a'' initialStore))) = Some (sanitize env0 '' a'')
   \<and> data (fst (login env0 '' a'' initialStore)) \<noteq> data initialStore"
proof -
  have ok: "validateField '' a'' [Required, MinLength 2] ''Nome'' = []"
    by (simp add: validate_name trim_examples)
  have u0: "userName (data initialStore) = None"
    by (simp add: initialStore_def INITIAL_STATE_def)
  have u1: "userName (data (fst (login env0 '' a'' initialStore))) = Some (sanitize env0 '' a'')"
    using login_accepts [OF ok, of env0 initialStore] by simp
  have "data (fst (login env0 '' a'' initialStore)) \<noteq> data initialStore"
    using u0 u1 by auto
  thus ?thesis
    using u0 u1 login_accepts [OF ok, of env0 initialStore] by (simp add: trim_examples)
qed

section \<open>Deleting goals and journal entries\<close>

lemma find_None_absent: "x \<notin> set (map f xs) \<Longrightarrow> List.find (\<lambda>c. f c = x) xs = None"
  by (induction xs) auto

lemma find_Some_present: "x \<in> set (map f xs) \<Longrightarrow> \<exists>y. List.find (\<lambda>c. f c = x) xs = Some y"
  by (induction xs) auto

lemma shape_login: "wellShaped (snd (login e name s))"
  by (simp add: login_def Let_def wellShaped_def resultFields_def)

lemma shape_addGoal: "wellShaped (snd (addGoal e title s))"
  by (simp add: addGoal_def Let_def wellShaped_def resultFields_def split: validation.split)

lemma shape_toggleGoal: "wellShaped (snd (toggleGoal e goalId s))"
  by (simp add: toggleGoal_def Let_def wellShaped_def resultFields_def split: option.split)

lemma shape_deleteGoal: "wellShaped (snd (deleteGoal goalId s))"
  by (simp add: deleteGoal_def Let_def wellShaped_def resultFields_def split: option.split)

lemma shape_saveJournalEntry: "wellShaped (snd (saveJournalEntry e content entryId s))"
  by (simp add: saveJournalEntry_def Let_def wellShaped_def resultFields_def
        split: validation.split option.split)

lemma shape_deleteJournalEntry: "wellShaped (snd (deleteJournalEntry entryId s))"
  by (simp add: deleteJournalEntry_def Let_def wellShaped_def resultFields_def split: option.split)

lemma shape_recordFeeling: "wellShaped (snd (recordFeeling e emotion details s))"
  by (simp add: recordFeeling_def Let_def case_prod_beta wellShaped_def resultFields_def)

lemma shape_completeChallenge: "wellShaped (snd (completeChallenge challengeId s))"
  by (simp add: completeChallenge_def Let_def wellShaped_def resultFields_def split: option.split)

lemma shape_scheduleAppointment: "wellShaped (snd (scheduleAppointment e d s))"
  by (simp add: scheduleAppointment_def Let_def wellShaped_def resultFields_def
        split: validation.split)

lemma shape_cancelAppointment: "wellShaped (snd (cancelAppointment appointmentId s))"
  by (simp add: cancelAppointment_def Let_def wellShaped_def resultFields_def split: option.split)

lemma resultOf_shape: "resultOf e opn s = Some r \<Longrightarrow> wellShaped r"
  by (cases opn)
     (auto simp: shape_login shape_addGoal shape_toggleGoal shape_deleteGoal
        shape_saveJournalEntry shape_deleteJournalEntry shape_recordFeeling
        shape_completeChallenge shape_scheduleAppointment shape_cancelAppointment)

text \<open>
  Claim C8, as amended. Every method of the store that returns a result object returns a
  boolean \<open>success\<close> first and at most one more field (validation errors, a message or
  the entity produced); there is no field for an error kind. In particular \<open>deleteGoal\<close>
  and \<open>deleteJournalEntry\<close>, when the id is absent, leave the store untouched and return
  the bare \<open>{success: false}\<close>, and when the id is present return the bare
  \<open>{success: true}\<close>.
\<close>

theorem delete_absent_bare_failure:
  "(goalId \<notin> set (map g_id (goals (data s))) \<longrightarrow>
      deleteGoal goalId s = (s, [(''success'', RBool False)]))
   \<and> (entryId \<notin> set (map j_id (journalEntries (data s))) \<longrightarrow>
        deleteJournalEntry entryId s = (s, [(''success'', RBool False)]))
   \<and> (goalId \<in> set (map g_id (goals (data s))) \<longrightarrow>
        snd (deleteGoal goalId s) = [(''success'', RBool True)])
   \<and> (entryId \<in> set (map j_id (journalEntries (data s))) \<longrightarrow>
        snd (deleteJournalEntry entryId s) = [(''success'', RBool True)])
   \<and> (resultOf e opn s = Some r \<longrightarrow> wellShaped r)"
proof (intro conjI impI)
  assume "resultOf e opn s = Some r"
  thus "wellShaped r" by (rule resultOf_shape)
next
  assume "goalId \<notin> set (map g_id (goals (data s)))"
  thus "deleteGoal goalId s = (s, [(''success'', RBool False)])"
    by (simp add: deleteGoal_def find_None_absent)
next
  assume "entryId \<notin> set (map j_id (journalEntries (data s)))"
  thus "deleteJournalEntry entryId s = (s, [(''success'', RBool False)])"
    by (simp add: deleteJournalEntry_def find_None_absent)
next
  assume "goalId \<in> set (map g_id (goals (data s)))"
  then obtain g where "List.find (\<lambda>g. g_id g = goalId) (goals (data s)) = Some g"
    using find_Some_present [of goalId g_id "goals (data s)"] by blast
  thus "snd (deleteGoal goalId s) = [(''success'', RBool True)]"
    by (simp add: deleteGoal_def Let_def)
next
  assume "entryId \<in> set (map j_id (journalEntries (data s)))"
  then obtain en where "List.find (\<lambda>en. j_id en = entryId) (journalEntries (data s)) = Some en"
    using find_Some_present [of entryId j_id "journalEntries (data s)"] by blast
  thus "snd (deleteJournalEntry entryId s) = [(''success'', RBool True)]"
    by (simp add: deleteJournalEntry_def Let_def)
qed

lemma initial_goal_ids: "map g_id (goals (data initialStore)) = [1, 2, 3, 4, 5]"
  by (simp add: initialStore_def INITIAL_STATE_def INITIAL_goals_def)

lemma initial_entry_ids: "map j_id (journalEntries (data initialStore)) = [1, 2, 3, 4, 5]"
  by (simp add: initialStore_def INITIAL_STATE_def INITIAL_journalEntries_def)

theorem delete_absent_bare_failure_witness:
  "99 \<notin> set (map g_id (goals (data initialStore)))
   \<and> deleteGoal 99 initialStore = (initialStore, [(''success'', RBool False)])
   \<and> 99 \<notin> set (map j_id (journalEntries (data initialStore)))
   \<and> deleteJournalEntry 99 initialStore = (initialStore, [(''success'', RBool False)])
   \<and> 2 \<in> set (map g_id (goals (data initialStore)))
   \<and> snd (deleteGoal 2 initialStore) = [(''success'', RBool True)]
   \<and> 3 \<in> set (map j_id (journalEntries (data initialStore)))
   \<and> snd (deleteJournalEntry 3 initialStore) = [(''success'', RBool True)]
   \<and> resultOf env0 (DeleteGoal 99) initialStore = Some [(''success'', RBool False)]
   \<and> wellShaped [(''success'', RBool False)]"
  using delete_absent_bare_failure [of 99 initialStore 99 env0 "DeleteGoal 99"
          "[(''success'', RBool False)]"]
        delete_absent_bare_failure [of 2 initialStore 3 env0 "DeleteGoal 99"
          "[(''success'', RBool False)]"]
  by (simp add: initial_goal_ids initial_entry_ids)

text \<open>
  Claim C8 as stated fails: the failure that \<open>deleteGoal\<close> and \<open>deleteJournalEntry\<close> return
  for an absent id has the single field \<open>success\<close>, so it carries neither an error kind nor
  a message.
\<close>

theorem delete_absent_counterexample:
  "99 \<notin> set (map g_id (goals (data initialStore)))
   \<and> map fst (snd (deleteGoal 99 initialStore)) = [''success'']
   \<and> map_of (snd (deleteGoal 99 initialStore)) ''message'' = None
   \<and> 99 \<notin> set (map j_id (journalEntries (data initialStore)))
   \<and> map fst (snd (deleteJournalEntry 99 initialStore)) = [''success'']
   \<and> map_of (snd (deleteJournalEntry 99 initialStore)) ''message'' = None"
  by (simp add: initial_goal_ids initial_entry_ids deleteGoal_def deleteJournalEntry_def
        find_None_absent)

section \<open>Recording a feeling\<close>

lemma map_of_js_spread:
  "k \<notin> fst ` set ext \<Longrightarrow> map_of (js_spread base ext) k = map_of base k"
  unfolding js_spread_def
proof (induction ext arbitrary: base)
  case Nil
  show ?case by simp
next
  case (Cons p ext)
  obtain k' v where p: "p = (k', v)" by (cases p)
  from Cons.prems p have ne: "k' \<noteq> k" and rest: "k \<notin> fst ` set ext" by auto
  have "map_of (foldl (\<lambda>ob (k, v). AList.update k v ob) (AList.update k' v base) ext) k
          = map_of (AList.update k' v base) k"
    by (rule Cons.IH [OF rest])
  also have "\<dots> = map_of base k"
    using ne by (simp add: update_conv')
  finally show ?case by (simp add: p)
qed

lemma js_prop_js_spread:
  "k \<notin> fst ` set ext \<Longrightarrow> js_prop (js_spread base ext) k = js_prop base k"
  by (simp add: js_prop_def map_of_js_spread)

lemma updateCheckInStreak_xp_level:
  "xp (profile (fst (updateCheckInStreak e s))) = xp (profile s)"
  "level (profile (fst (updateCheckInStreak e s))) = level (profile s)"
  by (simp_all add: updateCheckInStreak_def Let_def profile_emit profile_setProfile
        awardBadge_xp awardBadge_level)

lemma updateCheckInStreak_rest:
  "feelings (data (fst (updateCheckInStreak e s))) = feelings (data s)"
  "moodHistory (data (fst (updateCheckInStreak e s))) = moodHistory (data s)"
  by (simp_all add: updateCheckInStreak_def Let_def data_emit data_setProfile awardBadge_rest)

lemma recordFeeling_levels:
  "(level (profile (fst (recordFeeling e emotion details s))),
    xp (profile (fst (recordFeeling e emotion details s))))
     = levelingReference (level (profile s)) (xp (profile s) + 10)"
proof -
  define s2 where "s2 = s\<lparr>data := (data s)\<lparr>feelings := feelings (data s)
                     @ [newFeeling e emotion details],
                   moodHistory := moodHistory (data s)
                     @ [\<lparr>m_date = js_prop (newFeeling e emotion details) ''date'',
                         m_mood = emotion\<rparr>]\<rparr>\<rparr>"
  define s3 where "s3 = fst (updateCheckInStreak e s2)"
  define es where "es = [Save False, Emit ''feeling:recorded''
      (PFeeling (newFeeling e emotion details) (streak (snd (updateCheckInStreak e s2))))]"
  define r where "r = ''Check-in di'' @ [CHR 0xE1] @ ''rio''"
  have "fst (recordFeeling e emotion details s) = emit es (addXp 10 r s3)"
    by (simp add: recordFeeling_def Let_def case_prod_beta newFeeling_def s2_def s3_def es_def
          r_def)
  hence "profile (fst (recordFeeling e emotion details s)) = profile (addXp 10 r s3)"
    by (simp add: profile_emit)
  moreover have "(level (profile (addXp 10 r s3)), xp (profile (addXp 10 r s3)))
          = levelingReference (level (profile s3)) (xp (profile s3) + 10)"
    by (rule addXp_profile) simp
  moreover have "level (profile s3) = level (profile s)" "xp (profile s3) = xp (profile s)"
    by (simp_all add: s3_def updateCheckInStreak_xp_level s2_def)
  ultimately show ?thesis by simp
qed

text \<open>
  Claim C9. \<open>recordFeeling\<close> never fails and validates nothing: for every string given as
  emotion the call returns success with the feeling it built; it appends that feeling to
  \<open>feelings\<close> and one entry to \<open>moodHistory\<close> with the emotion given and the feeling's date
  (the feeling carries the same emotion, and today's date, unless the details passed
  along bring those keys themselves); it updates the streak; and it grants 10 xp, that
  is, level and xp are those of the leveling loop run on the old xp plus 10.
\<close>

theorem recordFeeling_always_succeeds:
  "snd (recordFeeling e emotion details s)
     = [(''success'', RBool True), (''feeling'', RFeeling (newFeeling e emotion details))]
   \<and> feelings (data (fst (recordFeeling e emotion details s)))
        = feelings (data s) @ [newFeeling e emotion details]
   \<and> moodHistory (data (fst (recordFeeling e emotion details s)))
        = moodHistory (data s)
            @ [\<lparr>m_date = js_prop (newFeeling e emotion details) ''date'', m_mood = emotion\<rparr>]
   \<and> (''emotion'' \<notin> fst ` set details \<longrightarrow>
        js_prop (newFeeling e emotion details) ''emotion'' = JStr emotion)
   \<and> (''date'' \<notin> fst ` set details \<longrightarrow>
        js_prop (newFeeling e emotion details) ''date'' = JStr (today e))
   \<and> checkInStreak (profile (fst (recordFeeling e emotion details s)))
        = (if lastCheckInDate (profile s) = Some (today e) then checkInStreak (profile s)
           else if lastCheckInDate (profile s) = Some (yesterdayStr e)
           then checkInStreak (profile s) + 1 else 1)
   \<and> lastCheckInDate (profile (fst (recordFeeling e emotion details s))) = Some (today e)
   \<and> (level (profile (fst (recordFeeling e emotion details s))),
       xp (profile (fst (recordFeeling e emotion details s))))
        = levelingReference (level (profile s)) (xp (profile s) + 10)"
proof (intro conjI impI)
  show "snd (recordFeeling e emotion details s)
     = [(''success'', RBool True), (''feeling'', RFeeling (newFeeling e emotion details))]"
    by (simp add: recordFeeling_def Let_def case_prod_beta newFeeling_def)
  show "feelings (data (fst (recordFeeling e emotion details s)))
        = feelings (data s) @ [newFeeling e emotion details]"
    by (simp add: recordFeeling_def Let_def case_prod_beta newFeeling_def data_emit addXp_rest
          updateCheckInStreak_rest)
  show "moodHistory (data (fst (recordFeeling e emotion details s)))
        = moodHistory (data s)
            @ [\<lparr>m_date = js_prop (newFeeling e emotion details) ''date'', m_mood = emotion\<rparr>]"
    by (simp add: recordFeeling_def Let_def case_prod_beta newFeeling_def data_emit addXp_rest
          updateCheckInStreak_rest)
  show "checkInStreak (profile (fst (recordFeeling e emotion details s)))
        = (if lastCheckInDate (profile s) = Some (today e) then checkInStreak (profile s)
           else if lastCheckInDate (profile s) = Some (yesterdayStr e)
           then checkInStreak (profile s) + 1 else 1)"
    by (rule recordFeeling_streak)
  show "lastCheckInDate (profile (fst (recordFeeling e emotion details s))) = Some (today e)"
    by (rule recordFeeling_last)
  show "(level (profile (fst (recordFeeling e emotion details s))),
       xp (profile (fst (recordFeeling e emotion details s))))
        = levelingReference (level (profile s)) (xp (profile s) + 10)"
    by (rule recordFeeling_levels)
next
  assume "''emotion'' \<notin> fst ` set details"
  thus "js_prop (newFeeling e emotion details) ''emotion'' = JStr emotion"
    by (simp add: newFeeling_def js_prop_js_spread) (simp add: js_prop_def)
next
  assume "''date'' \<notin> fst ` set details"
  thus "js_prop (newFeeling e emotion details) ''date'' = JStr (today e)"
    by (simp add: newFeeling_def js_prop_js_spread) (simp add: js_prop_def)
qed

lemma ref130: "levelingReference 2 130 = (3, 10)"
  by (simp add: levelingReference.simps xpForNextLevel_div)

lemma newFeeling_example:
  "newFeeling env0 ''ansioso'' [(''simpleClick'', JBool True)]
        = [(''emotion'', JStr ''ansioso''), (''date'', JStr ''2025-09-10''),
           (''timestamp'', JStr ''2025-09-10T10:00:00.000Z''), (''simpleClick'', JBool True)]"
  by (simp add: newFeeling_def js_spread_def env0_def)

lemma initial_last_checkin: "lastCheckInDate (profile initialStore) = None"
  by (simp add: initialStore_def INITIAL_STATE_def)

theorem recordFeeling_always_succeeds_witness:
  "''emotion'' \<notin> fst ` set [(''simpleClick'', JBool True)]
   \<and> ''date'' \<notin> fst ` set [(''simpleClick'', JBool True)]
   \<and> map_of (snd (recordFeeling env0 ''ansioso'' [(''simpleClick'', JBool True)] initialStore))
        ''success'' = Some (RBool True)
   \<and> last (feelings (data (fst (recordFeeling env0 ''ansioso'' [(''simpleClick'', JBool True)]
              initialStore))))
        = [(''emotion'', JStr ''ansioso''), (''date'', JStr ''2025-09-10''),
           (''timestamp'', JStr ''2025-09-10T10:00:00.000Z''), (''simpleClick'', JBool True)]
   \<and> last (moodHistory (data (fst (recordFeeling env0 ''ansioso'' [(''simpleClick'', JBool True)]
              initialStore))))
        = \<lparr>m_date = JStr ''2025-09-10'', m_mood = ''ansioso''\<rparr>
   \<and> checkInStreak (profile (fst (recordFeeling env0 ''ansioso'' [(''simpleClick'', JBool True)]
              initialStore))) = 1
   \<and> level (profile (fst (recordFeeling env0 ''ansioso'' [(''simpleClick'', JBool True)]
              initialStore))) = 3
   \<and> xp (profile (fst (recordFeeling env0 ''ansioso'' [(''simpleClick'', JBool True)]
              initialStore))) = 10"
  using recordFeeling_always_succeeds [of env0 "''ansioso''" "[(''simpleClick'', JBool True)]"
          initialStore]
  by (simp add: newFeeling_example js_prop_def initial_profile initial_last_checkin ref130)

section \<open>Trend detection\<close>

lemma foldl_js_add_None: "foldl js_add None xs = None"
  by (induction xs) (simp_all add: js_add_simps)

lemma foldl_js_add_NaN: "None \<in> set xs \<Longrightarrow> foldl js_add a xs = None"
proof (induction xs arbitrary: a)
  case Nil
  thus ?case by simp
next
  case (Cons x xs)
  show ?case
  proof (cases "x = None")
    case True
    thus ?thesis by (simp add: js_add_simps foldl_js_add_None)
  next
    case False
    with Cons.prems have "None \<in> set xs" by auto
    thus ?thesis by (simp add: Cons.IH)
  qed
qed

lemma calculateAverage_NaN: "None \<in> set xs \<Longrightarrow> calculateAverage xs = None"
  by (auto simp: calculateAverage_def foldl_js_add_NaN js_div_simps)

lemma detectTrend_short: "length values < 3 \<Longrightarrow> detectTrend values = ''insufficient_data''"
  by (simp add: detectTrend_def)

lemma detectTrend_numbers:
  assumes "3 \<le> length xs"
  shows "detectTrend (map Some xs)
           = (if \<bar>mean (drop (length xs div 2) xs) - mean (take (length xs div 2) xs)\<bar> < 3 / 10
              then ''stable''
              else if 0 < mean (drop (length xs div 2) xs) - mean (take (length xs div 2) xs)
              then ''improving'' else ''declining'')"
proof -
  have t: "take (length xs div 2) xs \<noteq> []" and d: "drop (length xs div 2) xs \<noteq> []"
    using assms by auto
  have "calculateAverage (take (length xs div 2) (map Some xs))
          = Some (mean (take (length xs div 2) xs))"
    using calculateAverage_numbers [OF t] by (simp add: take_map)
  moreover have "calculateAverage (drop (length xs div 2) (map Some xs))
          = Some (mean (drop (length xs div 2) xs))"
    using calculateAverage_numbers [OF d] by (simp add: drop_map)
  ultimately show ?thesis
    using assms by (simp add: detectTrend_def Let_def js_sub_simps js_lt_simps js_gt_simps)
qed

lemma detectTrend_NaN:
  assumes "3 \<le> length values" and "None \<in> set values"
  shows "detectTrend values = ''declining''"
proof -
  have "None \<in> set (take (length values div 2) values) \<union> set (drop (length values div 2) values)"
    using assms(2) by (simp add: set_append [symmetric] del: set_append)
  hence "calculateAverage (take (length values div 2) values) = None
         \<or> calculateAverage (drop (length values div 2) values) = None"
    using calculateAverage_NaN by auto
  hence "js_sub (calculateAverage (drop (length values div 2) values))
                (calculateAverage (take (length values div 2) values)) = None"
    by (auto simp: js_sub_simps)
  thus ?thesis
    using assms(1) by (simp add: detectTrend_def Let_def js_lt_simps js_gt_simps)
qed

lemma trend_examples:
  "detectTrend (map Some [1, 1, 1, 1, 1, 1, 1]) = ''stable''"
  "detectTrend (map Some [1, 1, 1, 5, 5, 5, 5]) = ''improving''"
  "detectTrend (map Some [5, 5, 5, 1, 1, 1, 1]) = ''declining''"
  by (simp_all add: detectTrend_def Let_def calculateAverage_def js_add_simps js_div_simps
        js_sub_simps js_lt_simps js_gt_simps)

lemma stddev_example: "calculateStdDev (map Some [1, 1, 1, 1, 1, 1, 1]) = Some 0"
  by (simp add: calculateStdDev_def Let_def calculateAverage_def js_add_simps js_div_simps
        js_sub_simps)

lemma calculateStdDev_numbers:
  assumes "xs \<noteq> []"
  shows "calculateStdDev (map Some xs) = Some (sqrt (mean (map (\<lambda>x. (x - mean xs) ^ 2) xs)))"
proof -
  have sq: "map (\<lambda>n. map_option (\<lambda>d. d ^ 2) (js_sub n (Some (mean xs)))) (map Some xs)
              = map Some (map (\<lambda>x. (x - mean xs) ^ 2) xs)"
    by (simp add: js_sub_simps)
  have ne: "map (\<lambda>x. (x - mean xs) ^ 2) xs \<noteq> []"
    using assms by simp
  show ?thesis
    using assms
    by (simp add: calculateStdDev_def Let_def calculateAverage_numbers [OF assms] sq
          calculateAverage_numbers [OF ne] del: map_map)
qed

lemma showNat_small:
  "showNat 0 = ''0''" "showNat 1 = ''1''" "showNat (Suc 0) = ''1''" "showNat 3 = ''3''"
  by (simp_all add: showNat.simps digitChar_def)

lemma moodValue_pessimo: "moodValue ''pessimo'' = Some 1"
  by (simp add: moodValue_def js_get_def moodMap_def)

lemma trend_window:
  "3 \<le> length (moodHistory (data s)) \<Longrightarrow>
     analyzeMoodPatterns s
       = HasData
           \<lparr>avg7Days = toFixed1 (calculateAverage
                (map (\<lambda>m. moodValue (m_mood m)) (lastN 7 (moodHistory (data s))))),
            avg30Days = toFixed1 (calculateAverage
                (map (\<lambda>m. moodValue (m_mood m)) (lastN 30 (moodHistory (data s))))),
            trend = detectTrend (map (\<lambda>m. moodValue (m_mood m)) (lastN 7 (moodHistory (data s)))),
            volatility = toFixed1 (calculateStdDev
                (map (\<lambda>m. moodValue (m_mood m)) (lastN 7 (moodHistory (data s))))),
            mood_insights = generateMoodInsights
              (calculateAverage (map (\<lambda>m. moodValue (m_mood m)) (lastN 7 (moodHistory (data s)))))
              (detectTrend (map (\<lambda>m. moodValue (m_mood m)) (lastN 7 (moodHistory (data s)))))
              (calculateStdDev (map (\<lambda>m. moodValue (m_mood m)) (lastN 7 (moodHistory (data s)))))\<rparr>"
  by (simp add: analyzeMoodPatterns_def Let_def)

lemma pessimo_week:
  "analyzeMoodPatterns (withMoods [''pessimo'', ''pessimo'', ''pessimo'', ''pessimo'', ''pessimo'',
                                   ''pessimo'', ''pessimo''])
     = HasData \<lparr>avg7Days = ''1.0'', avg30Days = ''1.0'', trend = ''stable'', volatility = ''0.0'',
                mood_insights = generateMoodInsights (Some 1) ''stable'' (Some 0)\<rparr>"
proof -
  let ?s = "withMoods [''pessimo'', ''pessimo'', ''pessimo'', ''pessimo'', ''pessimo'',
                       ''pessimo'', ''pessimo'']"
  have h: "map (\<lambda>m. moodValue (m_mood m)) (lastN 7 (moodHistory (data ?s)))
             = map Some [1, 1, 1, 1, 1, 1, 1]"
       "map (\<lambda>m. moodValue (m_mood m)) (lastN 30 (moodHistory (data ?s)))
             = map Some [1, 1, 1, 1, 1, 1, 1]"
    by (simp_all add: withMoods_def lastN_def moodValue_pessimo)
  have len: "3 \<le> length (moodHistory (data ?s))"
    by (simp add: withMoods_def)
  have avg: "calculateAverage (map Some [1, 1, 1, 1, 1, 1, 1]) = Some 1"
    by (simp add: calculateAverage_def js_add_simps js_div_simps)
  have one: "toFixed1 (Some 1) = ''1.0''" and zero: "toFixed1 (Some 0) = ''0.0''"
    by (simp_all add: toFixed1_def tenths_def showNat_small)
  show ?thesis
    unfolding trend_window [OF len] h trend_examples stddev_example avg one zero ..
qed

text \<open>
  Claim C6. \<open>detectTrend\<close> on fewer than 3 values answers \<open>insufficient_data\<close>. Otherwise it
  splits the values at half their number (rounded down) and compares the means of the two
  parts: \<open>stable\<close> when they differ by less than 0.3, \<open>improving\<close> when the second exceeds
  the first by 0.3 or more, \<open>declining\<close> otherwise (also when a value is not a number).
  The mood analysis applies it to the mapped moods of the last 7 entries, with the
  population standard deviation of the same window as volatility. Seven times 1 is
  stable with deviation 0; 1,1,1,5,5,5,5 is improving; 5,5,5,1,1,1,1 is declining.
\<close>

theorem detectTrend_cases:
  "(length values < 3 \<longrightarrow> detectTrend values = ''insufficient_data'')
   \<and> (3 \<le> length xs \<longrightarrow>
        (\<bar>mean (drop (length xs div 2) xs) - mean (take (length xs div 2) xs)\<bar> < 3 / 10 \<longrightarrow>
           detectTrend (map Some xs) = ''stable'')
        \<and> (3 / 10 \<le> mean (drop (length xs div 2) xs) - mean (take (length xs div 2) xs) \<longrightarrow>
             detectTrend (map Some xs) = ''improving'')
        \<and> (mean (drop (length xs div 2) xs) - mean (take (length xs div 2) xs) \<le> - (3 / 10) \<longrightarrow>
             detectTrend (map Some xs) = ''declining''))
   \<and> (3 \<le> length values \<and> None \<in> set values \<longrightarrow> detectTrend values = ''declining'')
   \<and> (xs \<noteq> [] \<longrightarrow>
        calculateStdDev (map Some xs) = Some (sqrt (mean (map (\<lambda>x. (x - mean xs) ^ 2) xs))))
   \<and> detectTrend (map Some [1, 1, 1, 1, 1, 1, 1]) = ''stable''
   \<and> calculateStdDev (map Some [1, 1, 1, 1, 1, 1, 1]) = Some 0
   \<and> detectTrend (map Some [1, 1, 1, 5, 5, 5, 5]) = ''improving''
   \<and> detectTrend (map Some [5, 5, 5, 1, 1, 1, 1]) = ''declining''
   \<and> (3 \<le> length (moodHistory (data s)) \<longrightarrow>
        (\<exists>m. analyzeMoodPatterns s = HasData m
           \<and> trend m = detectTrend (map (\<lambda>m. moodValue (m_mood m))
                                      (lastN 7 (moodHistory (data s))))
           \<and> volatility m = toFixed1 (calculateStdDev (map (\<lambda>m. moodValue (m_mood m))
                                      (lastN 7 (moodHistory (data s)))))))
   \<and> analyzeMoodPatterns (withMoods [''pessimo'', ''pessimo'', ''pessimo'', ''pessimo'',
                                      ''pessimo'', ''pessimo'', ''pessimo''])
        = HasData \<lparr>avg7Days = ''1.0'', avg30Days = ''1.0'', trend = ''stable'',
                   volatility = ''0.0'',
                   mood_insights = generateMoodInsights (Some 1) ''stable'' (Some 0)\<rparr>"
  using trend_examples stddev_example pessimo_week
  by (auto simp: detectTrend_short detectTrend_numbers detectTrend_NaN trend_window
        calculateStdDev_numbers simp del: map_map)

theorem detectTrend_cases_witness:
  "length [Some 1, Some (1::real)] < 3
   \<and> detectTrend [Some 1, Some 1] = ''insufficient_data''
   \<and> 3 \<le> length [2, 3, 3, 4 :: real]
   \<and> 3 / 10 \<le> mean (drop (length [2, 3, 3, 4 :: real] div 2) [2, 3, 3, 4])
                  - mean (take (length [2, 3, 3, 4 :: real] div 2) [2, 3, 3, 4])
   \<and> detectTrend (map Some [2, 3, 3, 4]) = ''improving''
   \<and> \<bar>mean (drop (length [3, 3, 3 :: real] div 2) [3, 3, 3])
        - mean (take (length [3, 3, 3 :: real] div 2) [3, 3, 3])\<bar> < 3 / 10
   \<and> detectTrend (map Some [3, 3, 3]) = ''stable''
   \<and> mean (drop (length [4, 4, 2, 1 :: real] div 2) [4, 4, 2, 1])
        - mean (take (length [4, 4, 2, 1 :: real] div 2) [4, 4, 2, 1]) \<le> - (3 / 10)
   \<and> detectTrend (map Some [4, 4, 2, 1]) = ''declining''
   \<and> None \<in> set [Some 1, None, Some (5::real)]
   \<and> detectTrend [Some 1, None, Some 5] = ''declining''"
  using detectTrend_cases [of "[Some 1, Some 1]" "[2, 3, 3, 4]" initialStore]
        detectTrend_cases [of "[Some 1, None, Some 5]" "[3, 3, 3]" initialStore]
        detectTrend_cases [of "[]" "[4, 4, 2, 1]" initialStore]
  by (simp add: mean_def)

section \<open>The average mood\<close>

lemma moodOr3_score:
  "m \<notin> set objectPrototypeKeys \<Longrightarrow> moodOr3 m = Some (moodScore m)"
  by (simp add: moodOr3_def js_get_def moodScore_def split: option.split)

lemma moodOr3_inherited: "m \<in> set objectPrototypeKeys \<Longrightarrow> moodOr3 m = None"
  by (auto simp: moodOr3_def js_get_def moodMap_def objectPrototypeKeys_def)

lemma foldl_moodOr3:
  "\<forall>en \<in> set es. m_mood en \<notin> set objectPrototypeKeys \<Longrightarrow>
     foldl (\<lambda>acc entry. js_add acc (moodOr3 (m_mood entry))) (Some a) es
       = Some (a + sum_list (map (\<lambda>en. moodScore (m_mood en)) es))"
  by (induction es arbitrary: a) (simp_all add: moodOr3_score js_add_simps add.assoc)

lemma moodScore_range: "1 \<le> moodScore m \<and> moodScore m \<le> 5"
  by (auto simp: moodScore_def moodMap_def)

lemma calculateAverageMood_empty:
  "moodHistory (data s) = [] \<Longrightarrow> calculateAverageMood s = Number 0"
  by (simp add: calculateAverageMood_def)

lemma calculateAverageMood_labels:
  assumes "moodHistory (data s) \<noteq> []"
    and "\<forall>en \<in> set (moodHistory (data s)). m_mood en \<notin> set objectPrototypeKeys"
  shows "calculateAverageMood s
           = Text (toFixed1 (Some (mean (map (\<lambda>en. moodScore (m_mood en)) (moodHistory (data s))))))"
  using assms by (simp add: calculateAverageMood_def Let_def foldl_moodOr3 js_div_simps mean_def)

lemma toFixed1_one_decimal:
  "0 \<le> x \<Longrightarrow> toFixed1 (Some x) = showNat (tenths x div 10) @ ''.'' @ [digitChar (tenths x mod 10)]"
  by (simp add: toFixed1_def showNat.simps [of "tenths x mod 10"])

lemma foldl_moodOr3_NaN:
  "\<exists>en \<in> set es. m_mood en \<in> set objectPrototypeKeys \<Longrightarrow>
     foldl (\<lambda>acc entry. js_add acc (moodOr3 (m_mood entry))) a es = None"
proof (induction es arbitrary: a)
  case Nil
  thus ?case by simp
next
  case (Cons en es)
  show ?case
  proof (cases "m_mood en \<in> set objectPrototypeKeys")
    case True
    have "foldl (\<lambda>acc entry. js_add acc (moodOr3 (m_mood entry))) None es = None"
      by (induction es) (simp_all add: js_add_simps)
    thus ?thesis using True by (simp add: moodOr3_inherited js_add_simps)
  next
    case False
    with Cons.prems have "\<exists>en \<in> set es. m_mood en \<in> set objectPrototypeKeys" by auto
    thus ?thesis by (simp add: Cons.IH)
  qed
qed

text \<open>
  Claim C10 says that any label outside the mood map counts as 3. The code gets there
  with \<open>moodMap[entry.mood] || 3\<close>, which holds for the labels that resolve to nothing
  (\<open>calculateAverageMood_labels\<close> above) but not for a label that names a member every
  object inherits: \<open>"constructor"\<close> resolves to a function, the default is not taken, the
  sum becomes a string and the result is \<open>"NaN"\<close>, where the claim expects \<open>"3.0"\<close>. An
  unknown label such as \<open>"ansioso"\<close> does give \<open>"3.0"\<close>, and the empty history the number 0.
\<close>

theorem calculateAverageMood_inherited_label:
  "calculateAverageMood (withMoods [''constructor'']) = Text ''NaN''
   \<and> calculateAverageMood (withMoods [''bom'', ''toString'', ''otimo'']) = Text ''NaN''
   \<and> calculateAverageMood (withMoods [''ansioso'']) = Text ''3.0''
   \<and> calculateAverageMood (withMoods []) = Number 0"
  by (simp add: calculateAverageMood_def withMoods_def Let_def moodOr3_def js_get_def moodMap_def
        objectPrototypeKeys_def js_add_simps js_div_simps toFixed1_def tenths_def showNat.simps
        digitChar_def)

section \<open>Thresholds of recommendations and insights\<close>
























end
